theory Spec2Isabelle
  imports Complex_Main
begin

section \<open>Text and character classes\<close>

text \<open>
  Text is a list of 8-bit characters, read as the code points below 256 of a Python
  string. The patterns of the parser are ASCII, and among these code points only the
  ASCII letters change case into ASCII, so ASCII case folding decides every
  case-insensitive comparison. \<^verbatim>\<open>\s\<close> and \<^verbatim>\<open>str.strip\<close> share one
  notion of whitespace; \<^verbatim>\<open>\d\<close> is a decimal digit; a word character (for
  \<^verbatim>\<open>\b\<close>) is alphanumeric or the underscore.
\<close>

definition code :: "char \<Rightarrow> nat" where
  "code c = of_char c"

definition is_space :: "char \<Rightarrow> bool" where
  "is_space c = (let n = code c in
     (9 \<le> n \<and> n \<le> 13) \<or> (28 \<le> n \<and> n \<le> 32) \<or> n = 133 \<or> n = 160)"

definition is_digit :: "char \<Rightarrow> bool" where
  "is_digit c = (let n = code c in 48 \<le> n \<and> n \<le> 57)"

definition is_word :: "char \<Rightarrow> bool" where
  "is_word c = (let n = code c in
     (48 \<le> n \<and> n \<le> 57) \<or> (65 \<le> n \<and> n \<le> 90) \<or> n = 95 \<or> (97 \<le> n \<and> n \<le> 122)
     \<or> n = 170 \<or> n = 178 \<or> n = 179 \<or> n = 181 \<or> n = 185 \<or> n = 186
     \<or> (188 \<le> n \<and> n \<le> 190) \<or> (192 \<le> n \<and> n \<le> 214)
     \<or> (216 \<le> n \<and> n \<le> 246) \<or> (248 \<le> n \<and> n \<le> 255))"

definition to_lower :: "char \<Rightarrow> char" where
  "to_lower c = (let n = code c in if 65 \<le> n \<and> n \<le> 90 then char_of (n + 32) else c)"

definition to_upper :: "char \<Rightarrow> char" where
  "to_upper c = (let n = code c in if 97 \<le> n \<and> n \<le> 122 then char_of (n - 32) else c)"

text \<open>
  The members of a bracket expression: a character, a range, \<^verbatim>\<open>\s\<close> or
  \<^verbatim>\<open>\d\<close>; the expression is positive or negated (\<^verbatim>\<open>[^...]\<close>).
\<close>

datatype citem = CChar char | CRange char char | CSpace | CDigit

datatype cls = Pos "citem list" | Neg "citem list"

fun item_raw :: "citem \<Rightarrow> char \<Rightarrow> bool" where
  "item_raw (CChar a) c = (a = c)"
| "item_raw (CRange a b) c = (code a \<le> code c \<and> code c \<le> code b)"
| "item_raw CSpace c = is_space c"
| "item_raw CDigit c = is_digit c"

text \<open>
  Under \<^verbatim>\<open>re.IGNORECASE\<close> (flag \<open>ic\<close>) a member matches a character when it
  matches one of its two cases.
\<close>

definition item_match :: "bool \<Rightarrow> citem \<Rightarrow> char \<Rightarrow> bool" where
  "item_match ic i c =
     (if ic then item_raw i (to_lower c) \<or> item_raw i (to_upper c) else item_raw i c)"

fun cls_match :: "bool \<Rightarrow> cls \<Rightarrow> char \<Rightarrow> bool" where
  "cls_match ic (Pos items) c = list_ex (\<lambda>i. item_match ic i c) items"
| "cls_match ic (Neg items) c = (\<not> list_ex (\<lambda>i. item_match ic i c) items)"

section \<open>Regular expressions\<close>

text \<open>
  The constructs the parser's patterns use: one character of a class, sequence,
  alternation, a greedy optional part, greedy repetition of a class between a lower
  and an optional upper bound, a numbered capturing group and the word boundary.
\<close>

datatype rx =
    Eps
  | Sym cls
  | Seq rx rx
  | Alt rx rx
  | Opt rx
  | Rep cls nat "nat option"
  | Cap nat rx
  | WordB

text \<open>
  A matcher state: the character before the current position (none at the start of
  the text), the rest of the text, and the groups captured so far, the latest first.
\<close>

type_synonym caps = "(nat \<times> string) list"
type_synonym mstate = "char option \<times> string \<times> caps"

definition at_boundary :: "char option \<Rightarrow> string \<Rightarrow> bool" where
  "at_boundary prev rest =
     ((case prev of None \<Rightarrow> False | Some c \<Rightarrow> is_word c)
      \<noteq> (case rest of [] \<Rightarrow> False | c # _ \<Rightarrow> is_word c))"

text \<open>The state after reading the first \<open>k\<close> characters of the rest.\<close>

definition advance :: "nat \<Rightarrow> mstate \<Rightarrow> mstate" where
  "advance k st = (case st of (prev, rest, g) \<Rightarrow>
     (if k = 0 \<or> rest = [] then prev else Some (last (take k rest)), drop k rest, g))"

text \<open>
  Backtracking as a list of successes: every way the expression matches at the state,
  in the order a backtracking matcher tries them (the left alternative first, the
  longest repetition first, the optional part present first). The head of the list is
  the match Python's \<^verbatim>\<open>re\<close> finds.
\<close>

fun rmatch :: "bool \<Rightarrow> rx \<Rightarrow> mstate \<Rightarrow> mstate list" where
  "rmatch ic Eps st = [st]"
| "rmatch ic (Sym c) (prev, rest, g) =
     (case rest of
        [] \<Rightarrow> []
      | x # xs \<Rightarrow> if cls_match ic c x then [(Some x, xs, g)] else [])"
| "rmatch ic (Seq r1 r2) st = concat (map (rmatch ic r2) (rmatch ic r1 st))"
| "rmatch ic (Alt r1 r2) st = rmatch ic r1 st @ rmatch ic r2 st"
| "rmatch ic (Opt r) st = rmatch ic r st @ [st]"
| "rmatch ic (Rep c lo hi) (prev, rest, g) =
     (let run = length (takeWhile (cls_match ic c) rest);
          most = (case hi of None \<Rightarrow> run | Some h \<Rightarrow> min h run)
      in map (\<lambda>k. advance k (prev, rest, g)) (rev [lo ..< Suc most]))"
| "rmatch ic (Cap n r) (prev, rest, g) =
     map (\<lambda>(prev', rest', g'). (prev', rest', (n, take (length rest - length rest') rest) # g'))
       (rmatch ic r (prev, rest, g))"
| "rmatch ic WordB (prev, rest, g) = (if at_boundary prev rest then [(prev, rest, g)] else [])"

text \<open>A literal string, a sequence and an alternation of several expressions.\<close>

definition chr :: "char \<Rightarrow> rx" where
  "chr c = Sym (Pos [CChar c])"

fun lit :: "string \<Rightarrow> rx" where
  "lit [] = Eps"
| "lit (c # cs) = Seq (chr c) (lit cs)"

fun seqs :: "rx list \<Rightarrow> rx" where
  "seqs [] = Eps"
| "seqs (r # rs) = Seq r (seqs rs)"

fun alts :: "rx \<Rightarrow> rx list \<Rightarrow> rx" where
  "alts r [] = r"
| "alts r (x # xs) = Alt r (alts x xs)"

text \<open>
  A match: the matched text (\<^verbatim>\<open>group(0)\<close>) and the captured groups.
  \<^verbatim>\<open>group(n)\<close> of a group that took no part in the match is \<^verbatim>\<open>None\<close>, which
  \<^verbatim>\<open>findall\<close> turns into the empty string.
\<close>

type_synonym rmatch_result = "string \<times> caps"

definition group :: "rmatch_result \<Rightarrow> nat \<Rightarrow> string" where
  "group m n = (if n = 0 then fst m else (case map_of (snd m) n of None \<Rightarrow> [] | Some s \<Rightarrow> s))"

text \<open>
  The first match at the current position, with the state behind it. When
  \<open>must_advance\<close> is set, an empty match is refused and the matcher backtracks, as
  after an empty match at the same position.
\<close>

definition match_here ::
  "bool \<Rightarrow> rx \<Rightarrow> bool \<Rightarrow> char option \<Rightarrow> string \<Rightarrow> (rmatch_result \<times> char option \<times> string) option" where
  "match_here ic r must_advance prev rest =
     (case filter (\<lambda>(prev', rest', g'). \<not> (must_advance \<and> length rest' = length rest))
             (rmatch ic r (prev, rest, [])) of
        [] \<Rightarrow> None
      | (prev', rest', g') # _ \<Rightarrow>
          Some ((take (length rest - length rest') rest, g'), prev', rest'))"

text \<open>
  \<^verbatim>\<open>re.search\<close>: the first position, from the left, at which the expression
  matches.
\<close>

fun search_from :: "bool \<Rightarrow> rx \<Rightarrow> char option \<Rightarrow> string \<Rightarrow> rmatch_result option" where
  "search_from ic r prev [] =
     (case match_here ic r False prev [] of None \<Rightarrow> None | Some (m, _) \<Rightarrow> Some m)"
| "search_from ic r prev (c # cs) =
     (case match_here ic r False prev (c # cs) of
        None \<Rightarrow> search_from ic r (Some c) cs
      | Some (m, _) \<Rightarrow> Some m)"

definition re_search :: "bool \<Rightarrow> rx \<Rightarrow> string \<Rightarrow> rmatch_result option" where
  "re_search ic r text = search_from ic r None text"

text \<open>A match ends inside the rest of the text: what is left is a suffix of it.\<close>

lemma rmatch_suffix:
  "(prev', rest', g') \<in> set (rmatch ic r (prev, rest, g)) \<Longrightarrow> \<exists>m. rest = m @ rest'"
proof (induction r arbitrary: prev rest g prev' rest' g')
  case (Sym c)
  then show ?case by (auto split: list.splits if_splits)
next
  case (Seq r1 r2)
  from Seq.prems obtain p1 t1 g1 where
    1: "(p1, t1, g1) \<in> set (rmatch ic r1 (prev, rest, g))" and
    2: "(prev', rest', g') \<in> set (rmatch ic r2 (p1, t1, g1))"
    by auto
  from Seq.IH(1)[OF 1] Seq.IH(2)[OF 2] show ?case by auto
next
  case (Rep c lo hi)
  then obtain k where "rest' = drop k rest"
    by (auto simp: advance_def Let_def)
  then have "rest = take k rest @ rest'" by simp
  then show ?case by blast
qed (auto split: if_splits)

lemma match_here_length:
  assumes "match_here ic r must_advance prev rest = Some ((m, g), prev', rest')"
  shows "length rest' \<le> length rest \<and> length m = length rest - length rest'
         \<and> (must_advance \<longrightarrow> m \<noteq> [])"
proof -
  let ?ok = "\<lambda>(p, t, c). \<not> (must_advance \<and> length (t::string) = length rest)"
  let ?xs = "filter ?ok (rmatch ic r (prev, rest, []))"
  from assms obtain ys where xs: "?xs = (prev', rest', g) # ys"
    and m: "m = take (length rest - length rest') rest"
    by (auto simp: match_here_def split: list.splits)
  have "(prev', rest', g) \<in> set ?xs" unfolding xs by simp
  then have mem: "(prev', rest', g) \<in> set (rmatch ic r (prev, rest, []))"
    and ok: "\<not> (must_advance \<and> length rest' = length rest)"
    by auto
  from rmatch_suffix[OF mem] obtain pre where pre: "rest = pre @ rest'" by blast
  from pre m ok show ?thesis by auto
qed

text \<open>
  The scan behind \<^verbatim>\<open>re.findall\<close> and \<^verbatim>\<open>re.sub\<close>: the text cut into the
  successive non-overlapping matches and the characters between them. After a match
  the search goes on where the match ended; after an empty match it goes on at the
  same position and refuses a second empty match there.
\<close>

datatype segment = Skipped char | Matched rmatch_result

function scan :: "bool \<Rightarrow> rx \<Rightarrow> bool \<Rightarrow> char option \<Rightarrow> string \<Rightarrow> segment list" where
  "scan ic r must_advance prev rest =
     (case match_here ic r must_advance prev rest of
        None \<Rightarrow>
          (case rest of
             [] \<Rightarrow> []
           | c # cs \<Rightarrow> Skipped c # scan ic r False (Some c) cs)
      | Some (m, prev', rest') \<Rightarrow>
          Matched m #
            (if fst m = [] then scan ic r True prev rest
             else scan ic r False prev' rest'))"
  by pat_completeness auto

termination
proof (relation "measure (\<lambda>(ic, r, must_advance, prev, rest).
        2 * length rest + (if must_advance then 0 else 1))", goal_cases)
  case 1
  show ?case by simp
next
  case (2 ic r must_advance prev rest c cs)
  then show ?case by simp
next
  case (3 ic r must_advance prev rest x m y prev' rest')
  then have "match_here ic r must_advance prev rest = Some ((fst m, snd m), prev', rest')"
    by (cases m) auto
  from match_here_length[OF this] 3 show ?case by auto
next
  case (4 ic r must_advance prev rest x m y prev' rest')
  then have "match_here ic r must_advance prev rest = Some ((fst m, snd m), prev', rest')"
    by (cases m) auto
  from match_here_length[OF this] 4 show ?case by (cases "fst m") auto
qed

definition re_findall :: "bool \<Rightarrow> rx \<Rightarrow> string \<Rightarrow> rmatch_result list" where
  "re_findall ic r text =
     concat (map (\<lambda>s. case s of Skipped c \<Rightarrow> [] | Matched m \<Rightarrow> [m]) (scan ic r False None text))"

definition re_sub :: "bool \<Rightarrow> rx \<Rightarrow> string \<Rightarrow> string \<Rightarrow> string" where
  "re_sub ic r repl text =
     concat (map (\<lambda>s. case s of Skipped c \<Rightarrow> [c] | Matched m \<Rightarrow> repl) (scan ic r False None text))"

section \<open>Python values\<close>

text \<open>
  The parser works on untyped dictionaries (\<^verbatim>\<open>Dict[str, Any]\<close>). A value is
  \<^verbatim>\<open>None\<close>, a boolean, a number, a string, a list or a dictionary; a dictionary is
  an association list in insertion order, read through \<open>map_of\<close>. A number, an
  \<^verbatim>\<open>int\<close> or a finite \<^verbatim>\<open>float\<close>, is kept by the rational it stands for; the
  float infinity is a value of its own.
\<close>

datatype pyval =
    PNone
  | PBool bool
  | PNum rat
  | PInf
  | PStr string
  | PList "pyval list"
  | PDict "(string \<times> pyval) list"

datatype error = AttributeError | TypeError | RecursionError

text \<open>Truth value testing, as \<^verbatim>\<open>if v:\<close> does it.\<close>

fun truthy :: "pyval \<Rightarrow> bool" where
  "truthy PNone = False"
| "truthy (PBool b) = b"
| "truthy (PNum x) = (x \<noteq> 0)"
| "truthy PInf = True"
| "truthy (PStr s) = (s \<noteq> [])"
| "truthy (PList xs) = (xs \<noteq> [])"
| "truthy (PDict kvs) = (kvs \<noteq> [])"

text \<open>
  \<^verbatim>\<open>v.get(k, default)\<close>: only a dictionary has the method; on anything else the
  attribute lookup raises.
\<close>

fun py_get_default :: "pyval \<Rightarrow> string \<Rightarrow> pyval \<Rightarrow> error + pyval" where
  "py_get_default (PDict kvs) k dflt =
     Inr (case map_of kvs k of None \<Rightarrow> dflt | Some v \<Rightarrow> v)"
| "py_get_default _ k dflt = Inl AttributeError"

definition py_get :: "pyval \<Rightarrow> string \<Rightarrow> error + pyval" where
  "py_get v k = py_get_default v k PNone"

text \<open>Sequencing of statements that may raise.\<close>

fun bindE :: "error + 'a \<Rightarrow> ('a \<Rightarrow> error + 'b) \<Rightarrow> error + 'b" where
  "bindE (Inl e) f = Inl e"
| "bindE (Inr x) f = f x"

text \<open>\<^verbatim>\<open>if section.get(k):\<close>\<close>

definition present :: "pyval \<Rightarrow> string \<Rightarrow> error + bool" where
  "present sec k = bindE (py_get sec k) (\<lambda>v. Inr (truthy v))"

section \<open>Confidence scores\<close>

record scores =
  financial_completeness :: rat
  party_identification :: rat
  payment_terms_clarity :: rat
  sla_definition :: rat
  contact_information :: rat
  overall_score :: rat

definition pts :: "bool \<Rightarrow> rat \<Rightarrow> rat" where
  "pts b w = (if b then w else 0)"

definition calculate_confidence_scores :: "pyval \<Rightarrow> error + scores" where
  "calculate_confidence_scores extracted_data =
     bindE (py_get_default extracted_data ''financial_details'' (PDict [])) (\<lambda>financial.
     bindE (present financial ''total_value'') (\<lambda>f1.
     bindE (present financial ''currency'') (\<lambda>f2.
     bindE (present financial ''line_items'') (\<lambda>f3.
     bindE (py_get_default extracted_data ''party_identification'' (PDict [])) (\<lambda>party.
     bindE (present party ''name'') (\<lambda>p1.
     bindE (present party ''legal_entity'') (\<lambda>p2.
     bindE (present party ''signatories'') (\<lambda>p3.
     bindE (py_get_default extracted_data ''payment_structure'' (PDict [])) (\<lambda>payment.
     bindE (present payment ''payment_terms'') (\<lambda>y1.
     bindE (present payment ''payment_methods'') (\<lambda>y2.
     bindE (present payment ''due_dates'') (\<lambda>y3.
     bindE (py_get_default extracted_data ''service_level_agreements'' (PDict [])) (\<lambda>sla.
     bindE (present sla ''performance_metrics'') (\<lambda>s1.
     bindE (present sla ''penalty_clauses'') (\<lambda>s2.
     bindE (present sla ''support_terms'') (\<lambda>s3.
     bindE (py_get_default extracted_data ''account_information'' (PDict [])) (\<lambda>account.
     bindE (if truthy account then py_get_default account ''contact_info'' (PDict [])
            else Inr (PDict [])) (\<lambda>contact_info.
     bindE (present contact_info ''email'') (\<lambda>c1.
     bindE (present contact_info ''phone'') (\<lambda>c2.
     bindE (if truthy account then present account ''account_numbers'' else Inr False) (\<lambda>c3.
     let fin = 0 + pts f1 15 + pts f2 5 + pts f3 10;
         par = 0 + pts p1 10 + pts p2 8 + pts p3 7;
         pay = 0 + pts y1 10 + pts y2 5 + pts y3 5;
         sl = 0 + pts s1 8 + pts s2 4 + pts s3 3;
         con = 0 + pts c1 5 + pts c2 3 + pts c3 2
     in Inr \<lparr>financial_completeness = fin, party_identification = par,
             payment_terms_clarity = pay, sla_definition = sl,
             contact_information = con,
             overall_score = (fin + par + pay + sl + con + 0) - 0\<rparr>)))))))))))))))))))))"

section \<open>Gap analysis\<close>

record gap_analysis =
  missing_fields :: "string list"
  incomplete_sections :: "string list"
  recommendations :: "string list"

text \<open>\<^verbatim>\<open>if cond: xs.append(label)\<close>\<close>

definition append_if :: "bool \<Rightarrow> string \<Rightarrow> string list \<Rightarrow> string list" where
  "append_if cond label xs = (if cond then xs @ [label] else xs)"

definition perform_gap_analysis :: "pyval \<Rightarrow> error + gap_analysis" where
  "perform_gap_analysis extracted_data =
     bindE (py_get_default extracted_data ''financial_details'' (PDict [])) (\<lambda>financial.
     bindE (present financial ''total_value'') (\<lambda>total_value.
     bindE (present financial ''line_items'') (\<lambda>line_items.
     bindE (present financial ''tax_info'') (\<lambda>tax_info.
     bindE (py_get_default extracted_data ''party_identification'' (PDict [])) (\<lambda>party.
     bindE (present party ''name'') (\<lambda>name.
     bindE (present party ''signatories'') (\<lambda>signatories.
     bindE (py_get_default extracted_data ''payment_structure'' (PDict [])) (\<lambda>payment.
     bindE (present payment ''payment_terms'') (\<lambda>payment_terms.
     bindE (present payment ''payment_methods'') (\<lambda>payment_methods.
     bindE (py_get_default extracted_data ''service_level_agreements'' (PDict [])) (\<lambda>sla.
     bindE (present sla ''performance_metrics'') (\<lambda>performance_metrics.
     bindE (py_get_default extracted_data ''account_information'' (PDict [])) (\<lambda>account.
     bindE (if \<not> truthy account then Inr True
            else bindE (present account ''contact_info'') (\<lambda>c. Inr (\<not> c))) (\<lambda>no_contact.
     let m1 = append_if (\<not> total_value) ''Total contract value'' [];
         m2 = append_if (\<not> line_items) ''Detailed line items'' m1;
         incomplete = append_if (\<not> tax_info) ''Tax information'' [];
         m3 = append_if (\<not> name) ''Party names'' m2;
         m4 = append_if (\<not> signatories) ''Authorized signatories'' m3;
         m5 = append_if (\<not> payment_terms) ''Payment terms'' m4;
         m6 = append_if (\<not> payment_methods) ''Payment methods'' m5;
         m7 = append_if (\<not> performance_metrics) ''Performance metrics'' m6;
         missing = append_if no_contact ''Contact information'' m7;
         r1 = append_if (missing \<noteq> [])
                ''Request additional contract documentation to fill missing fields'' [];
         r2 = append_if (length missing > 5)
                ''Consider manual review due to significant missing information'' r1;
         r3 = append_if (\<not> total_value)
                ''Verify contract value with client before processing payments'' r2
     in Inr \<lparr>missing_fields = missing, incomplete_sections = incomplete,
             recommendations = r3\<rparr>))))))))))))))"

section \<open>The shape of extracted data\<close>

text \<open>
  The scorer and the gap analysis call \<^verbatim>\<open>.get\<close> on the top-level dictionary, on
  each section they read and on \<^verbatim>\<open>contact_info\<close>. Extracted data is a dictionary
  in which each of these, when its key is there, is a dictionary again. A key may be
  missing, a section may be empty, and a field may hold any value.
\<close>

fun is_dict :: "pyval \<Rightarrow> bool" where
  "is_dict (PDict kvs) = True"
| "is_dict _ = False"

text \<open>The entry under a key, or the empty dictionary for a missing key.\<close>

fun entry :: "pyval \<Rightarrow> string \<Rightarrow> pyval" where
  "entry (PDict kvs) k = (case map_of kvs k of None \<Rightarrow> PDict [] | Some v \<Rightarrow> v)"
| "entry _ k = PDict []"

definition is_extracted_data :: "pyval \<Rightarrow> bool" where
  "is_extracted_data d =
     (is_dict d \<and> is_dict (entry d ''financial_details'')
      \<and> is_dict (entry d ''party_identification'')
      \<and> is_dict (entry d ''payment_structure'')
      \<and> is_dict (entry d ''service_level_agreements'')
      \<and> is_dict (entry d ''account_information'')
      \<and> is_dict (entry (entry d ''account_information'') ''contact_info''))"

text \<open>
  The value a presence check reads: \<^verbatim>\<open>section.get(k)\<close> on a dictionary, with
  \<^verbatim>\<open>None\<close> for a missing key.
\<close>

fun fld :: "pyval \<Rightarrow> string \<Rightarrow> pyval" where
  "fld (PDict kvs) k = (case map_of kvs k of None \<Rightarrow> PNone | Some v \<Rightarrow> v)"
| "fld _ k = PNone"

text \<open>The presence check of field \<open>k\<close> of section \<open>sec\<close>, and of a contact entry.\<close>

definition has :: "pyval \<Rightarrow> string \<Rightarrow> string \<Rightarrow> bool" where
  "has d sec k = truthy (fld (entry d sec) k)"

definition has_contact :: "pyval \<Rightarrow> string \<Rightarrow> bool" where
  "has_contact d k =
     truthy (fld (entry (entry d ''account_information'') ''contact_info'') k)"

text \<open>The fixture of the test suite with every scored field filled in.\<close>

definition complete_data :: pyval where
  "complete_data = PDict
     [(''party_identification'', PDict
        [(''name'', PStr ''Test Corp''),
         (''legal_entity'', PStr ''Test Corp Inc.''),
         (''signatories'', PList [PStr ''John Doe''])]),
      (''account_information'', PDict
        [(''account_numbers'', PList [PStr ''ACC-123'']),
         (''contact_info'', PDict
            [(''email'', PStr ''test@test.com''), (''phone'', PStr ''555-1234'')])]),
      (''financial_details'', PDict
        [(''total_value'', PNum 10000),
         (''currency'', PStr ''USD''),
         (''line_items'', PList
            [PDict [(''item'', PStr ''service''), (''amount'', PNum 10000)]])]),
      (''payment_structure'', PDict
        [(''payment_terms'', PStr ''Net 30''),
         (''payment_methods'', PList [PStr ''check'']),
         (''due_dates'', PList [PStr ''2024-01-01''])]),
      (''service_level_agreements'', PDict
        [(''performance_metrics'', PList [PStr ''99% uptime'']),
         (''penalty_clauses'', PList [PStr ''5% penalty'']),
         (''support_terms'', PStr ''24/7 support'')])]"

text \<open>The fixture of the test suite with six empty sections.\<close>

definition minimal_data :: pyval where
  "minimal_data = PDict
     [(''party_identification'', PDict []),
      (''account_information'', PDict []),
      (''financial_details'', PDict []),
      (''payment_structure'', PDict []),
      (''revenue_classification'', PDict []),
      (''service_level_agreements'', PDict [])]"

section \<open>Filling in one field\<close>

text \<open>
  \<^verbatim>\<open>d[k] = v\<close> on a dictionary: the value of an existing key is replaced where it
  stands, a new key goes to the end.
\<close>

primrec dict_set :: "(string \<times> pyval) list \<Rightarrow> string \<Rightarrow> pyval \<Rightarrow> (string \<times> pyval) list" where
  "dict_set [] k v = [(k, v)]"
| "dict_set (p # ps) k v = (if fst p = k then (k, v) # ps else p # dict_set ps k v)"

text \<open>
  A scored field is field \<open>k\<close> of section \<open>sec\<close>, or entry \<open>k\<close> of the
  \<^verbatim>\<open>contact_info\<close> dictionary of the account section.
\<close>

datatype field_ref = Field string string | Contact string

fun field_value :: "pyval \<Rightarrow> field_ref \<Rightarrow> pyval" where
  "field_value d (Field sec k) = fld (entry d sec) k"
| "field_value d (Contact k) =
     fld (entry (entry d ''account_information'') ''contact_info'') k"

text \<open>
  \<^verbatim>\<open>d.setdefault(sec, {})[k] = v\<close>; data whose section is not a dictionary is left
  as it is.
\<close>

fun set_field :: "pyval \<Rightarrow> string \<Rightarrow> string \<Rightarrow> pyval \<Rightarrow> pyval" where
  "set_field (PDict secs) sec k v =
     (case entry (PDict secs) sec of
        PDict fs \<Rightarrow> PDict (dict_set secs sec (PDict (dict_set fs k v)))
      | _ \<Rightarrow> PDict secs)"
| "set_field d sec k v = d"

fun with_field :: "pyval \<Rightarrow> field_ref \<Rightarrow> pyval \<Rightarrow> pyval" where
  "with_field d (Field sec k) v = set_field d sec k v"
| "with_field d (Contact k) v =
     (case entry (entry d ''account_information'') ''contact_info'' of
        PDict cs \<Rightarrow> set_field d ''account_information'' ''contact_info'' (PDict (dict_set cs k v))
      | _ \<Rightarrow> d)"

text \<open>The fifteen fields the scorer checks.\<close>

definition scored_fields :: "field_ref list" where
  "scored_fields =
     [Field ''financial_details'' ''total_value'', Field ''financial_details'' ''currency'',
      Field ''financial_details'' ''line_items'',
      Field ''party_identification'' ''name'', Field ''party_identification'' ''legal_entity'',
      Field ''party_identification'' ''signatories'',
      Field ''payment_structure'' ''payment_terms'', Field ''payment_structure'' ''payment_methods'',
      Field ''payment_structure'' ''due_dates'',
      Field ''service_level_agreements'' ''performance_metrics'',
      Field ''service_level_agreements'' ''penalty_clauses'',
      Field ''service_level_agreements'' ''support_terms'',
      Contact ''email'', Contact ''phone'',
      Field ''account_information'' ''account_numbers'']"

section \<open>The contract parser\<close>

subsection \<open>Pieces the patterns share\<close>

definition spaces :: rx where \<comment> \<open>\<^verbatim>\<open>\s*\<close>\<close>
  "spaces = Rep (Pos [CSpace]) 0 None"

definition digits :: rx where \<comment> \<open>\<^verbatim>\<open>\d+\<close>\<close>
  "digits = Rep (Pos [CDigit]) 1 None"

definition upper_letter :: rx where \<comment> \<open>\<^verbatim>\<open>[A-Z]\<close>\<close>
  "upper_letter = Sym (Pos [CRange CHR ''A'' CHR ''Z''])"

definition name_chars :: rx where \<comment> \<open>\<^verbatim>\<open>[a-zA-Z\s]+\<close>\<close>
  "name_chars = Rep (Pos [CRange CHR ''a'' CHR ''z'', CRange CHR ''A'' CHR ''Z'', CSpace]) 1 None"

definition rest_of_sentence :: rx where \<comment> \<open>\<^verbatim>\<open>[^.\n]+\<close>\<close>
  "rest_of_sentence = Rep (Neg [CChar CHR ''.'', CChar (char_of (10::nat))]) 1 None"

definition number :: rx where \<comment> \<open>\<^verbatim>\<open>[0-9,]+\.?[0-9]*\<close>\<close>
  "number = seqs
     [Rep (Pos [CRange CHR ''0'' CHR ''9'', CChar CHR '','']) 1 None,
      Opt (chr CHR ''.''),
      Rep (Pos [CRange CHR ''0'' CHR ''9'']) 0 None]"

definition legal_suffix :: rx where
  \<comment> \<open>\<^verbatim>\<open>(?:Inc\.|LLC|Corp\.|Corporation|Ltd\.|Limited)\<close>\<close>
  "legal_suffix = alts (lit ''Inc.'')
     [lit ''LLC'', lit ''Corp.'', lit ''Corporation'', lit ''Ltd.'', lit ''Limited'']"

text \<open>
  \<^verbatim>\<open>list(set(xs))\<close>: the order in which a set of strings is listed depends on
  the hashes of the strings, which change from one run to the next. The listing is a
  parameter \<open>set_list\<close> of the parser; \<open>lists_set\<close> is all that is known of it.
\<close>

definition lists_set :: "(string list \<Rightarrow> string list) \<Rightarrow> bool" where
  "lists_set set_list = (\<forall>xs. distinct (set_list xs) \<and> set (set_list xs) = set xs)"

text \<open>\<^verbatim>\<open>re.findall\<close> with one group, over a list of patterns, in turn.\<close>

definition findall_group1 :: "bool \<Rightarrow> rx \<Rightarrow> string \<Rightarrow> string list" where
  "findall_group1 ic r text = map (\<lambda>m. group m 1) (re_findall ic r text)"

definition findall_each :: "rx list \<Rightarrow> string \<Rightarrow> string list" where
  "findall_each patterns text = concat (map (\<lambda>p. findall_group1 True p text) patterns)"

definition str_list :: "string list \<Rightarrow> pyval" where
  "str_list xs = PList (map PStr xs)"

subsection \<open>Cleaning\<close>

definition space_run :: rx where \<comment> \<open>\<^verbatim>\<open>\s+\<close>\<close>
  "space_run = Rep (Pos [CSpace]) 1 None"

text \<open>\<^verbatim>\<open>str.strip()\<close>\<close>

definition strip :: "string \<Rightarrow> string" where
  "strip s = rev (dropWhile is_space (rev (dropWhile is_space s)))"

text \<open>
  \<^verbatim>\<open>_clean_text\<close>. \<^verbatim>\<open>re.sub\<close> raises \<^verbatim>\<open>TypeError\<close> on anything but a
  string.
\<close>

fun clean_text :: "pyval \<Rightarrow> error + string" where
  "clean_text (PStr text) =
     Inr (strip (re_sub False space_run '' '' text))"
| "clean_text _ = Inl TypeError"

subsection \<open>Party\<close>

definition company_patterns :: "rx list" where
  "company_patterns =
     [Cap 1 (seqs [upper_letter, name_chars, legal_suffix]),
      Cap 1 (seqs [chr (char_of (34::nat)),
                   Cap 2 (seqs [Rep (Neg [CChar (char_of (34::nat))]) 1 None, legal_suffix]),
                   chr (char_of (34::nat))])]"

definition signatory_patterns :: "rx list" where
  "signatory_patterns =
     [seqs [lit ''signed by'', Opt (chr CHR '':''), spaces, Cap 1 (seqs [upper_letter, name_chars])],
      seqs [lit ''signature'', Opt (chr CHR '':''), spaces, Cap 1 (seqs [upper_letter, name_chars])],
      seqs [lit ''authorized by'', Opt (chr CHR '':''), spaces,
            Cap 1 (seqs [upper_letter, name_chars])]]"

text \<open>
  The first pattern has one group and \<^verbatim>\<open>findall\<close> gives its text; the second has
  two and gives a pair, of which the first component is taken unless it is empty.
\<close>

definition companies :: "string \<Rightarrow> string list" where
  "companies text =
     map (\<lambda>m. group m 1) (re_findall True (company_patterns ! 0) text)
     @ map (\<lambda>m. if group m 1 \<noteq> [] then group m 1 else group m 2)
         (re_findall True (company_patterns ! 1) text)"

definition extract_party_info :: "(string list \<Rightarrow> string list) \<Rightarrow> string \<Rightarrow> pyval" where
  "extract_party_info set_list text =
     (let name = (case companies text of [] \<Rightarrow> PNone | c # _ \<Rightarrow> PStr c);
          signatories = findall_each signatory_patterns text
      in PDict
        [(''name'', name),
         (''legal_entity'', name),
         (''registration_details'', PNone),
         (''signatories'', str_list (take 5 (set_list signatories))),
         (''roles'', PList [])])"

subsection \<open>Account\<close>

definition account_id :: rx where \<comment> \<open>\<^verbatim>\<open>([A-Z0-9\-]+)\<close>\<close>
  "account_id = Cap 1 (Rep (Pos [CRange CHR ''A'' CHR ''Z'', CRange CHR ''0'' CHR ''9'',
                                 CChar CHR ''-'']) 1 None)"

definition account_patterns :: "rx list" where
  "account_patterns =
     [seqs [lit ''account'', spaces, Alt (lit ''number'') (lit ''#''), Opt (chr CHR '':''),
            spaces, account_id],
      seqs [lit ''customer'', spaces, Alt (lit ''id'') (lit ''number''), Opt (chr CHR '':''),
            spaces, account_id],
      seqs [lit ''reference'', spaces, Alt (lit ''number'') (lit ''#''), Opt (chr CHR '':''),
            spaces, account_id]]"

definition email_pattern :: rx where
  "email_pattern = seqs
     [WordB,
      Rep (Pos [CRange CHR ''A'' CHR ''Z'', CRange CHR ''a'' CHR ''z'', CRange CHR ''0'' CHR ''9'',
                CChar CHR ''.'', CChar CHR ''_'', CChar CHR ''%'', CChar CHR ''+'',
                CChar CHR ''-'']) 1 None,
      chr CHR ''@'',
      Rep (Pos [CRange CHR ''A'' CHR ''Z'', CRange CHR ''a'' CHR ''z'', CRange CHR ''0'' CHR ''9'',
                CChar CHR ''.'', CChar CHR ''-'']) 1 None,
      chr CHR ''.'',
      Rep (Pos [CRange CHR ''A'' CHR ''Z'', CChar CHR ''|'', CRange CHR ''a'' CHR ''z'']) 2 None,
      WordB]"

definition separator :: rx where \<comment> \<open>\<^verbatim>\<open>[-.\s]?\<close>\<close>
  "separator = Opt (Sym (Pos [CChar CHR ''-'', CChar CHR ''.'', CSpace]))"

definition digit_run :: "nat \<Rightarrow> rx" where \<comment> \<open>\<^verbatim>\<open>[0-9]{n}\<close>\<close>
  "digit_run n = Rep (Pos [CRange CHR ''0'' CHR ''9'']) n (Some n)"

definition phone_pattern :: rx where
  "phone_pattern = seqs
     [WordB,
      Opt (seqs [Opt (chr CHR ''+''), chr CHR ''1'', separator]),
      Opt (chr CHR ''(''),
      Cap 1 (digit_run 3),
      Opt (chr CHR '')''),
      separator,
      Cap 2 (digit_run 3),
      separator,
      Cap 3 (digit_run 4),
      WordB]"

definition extract_account_info :: "(string list \<Rightarrow> string list) \<Rightarrow> string \<Rightarrow> pyval" where
  "extract_account_info set_list text =
     (let account_numbers = findall_each account_patterns text;
          emails = map fst (re_findall False email_pattern text);
          phones = re_findall False phone_pattern text;
          contact1 = (case emails of [] \<Rightarrow> [] | e # _ \<Rightarrow> [(''email'', PStr e)]);
          contact2 = (case phones of
                        [] \<Rightarrow> contact1
                      | p # _ \<Rightarrow> dict_set contact1 ''phone''
                          (PStr (''('' @ group p 1 @ '') '' @ group p 2 @ ''-'' @ group p 3)))
      in PDict
        [(''billing_details'', PNone),
         (''account_numbers'', str_list (set_list account_numbers)),
         (''contact_info'', PDict contact2)])"

subsection \<open>Financial\<close>

definition money_patterns :: "rx list" where
  "money_patterns =
     [seqs [chr CHR ''$'', spaces, Cap 1 number],
      seqs [Cap 1 number, spaces,
            Alt (seqs [lit ''dollar'', Opt (chr CHR ''s'')]) (lit ''usd'')],
      seqs [lit ''total'', Opt (chr CHR '':''), spaces, Opt (chr CHR ''$''), spaces, Cap 1 number],
      seqs [lit ''amount'', Opt (chr CHR '':''), spaces, Opt (chr CHR ''$''), spaces,
            Cap 1 number]]"

text \<open>\<^verbatim>\<open>match.replace(',', '')\<close>\<close>

definition strip_commas :: "string \<Rightarrow> string" where
  "strip_commas s = filter (\<lambda>c. c \<noteq> CHR '','') s"

text \<open>
  A Python float is an IEEE 754 double: a finite value, kept here by the rational it
  stands for, or infinity. (The parser builds no negative number and no NaN.)
\<close>

datatype pyfloat = Finite rat | Infinity

text \<open>The power of two with an integer exponent.\<close>

definition pow2 :: "int \<Rightarrow> rat" where
  "pow2 e = (if 0 \<le> e then 2 ^ nat e else 1 / 2 ^ nat (- e))"

text \<open>The number of binary digits of a natural number.\<close>

fun bits :: "nat \<Rightarrow> nat" where
  "bits n = (if n = 0 then 0 else Suc (bits (n div 2)))"

text \<open>The exponent \<open>e\<close> with \<open>2 ^ e \<le> x < 2 ^ (e + 1)\<close>, for a positive \<open>x\<close>.\<close>

definition binade :: "rat \<Rightarrow> int" where
  "binade x =
     (let (p, q) = quotient_of x;
          d = int (bits (nat p)) - int (bits (nat q))
      in if pow2 d \<le> x then d else d - 1)"

text \<open>Rounding to the nearest integer, a tie going to the even one.\<close>

definition round_half_even :: "rat \<Rightarrow> int" where
  "round_half_even x =
     (let f = \<lfloor>x\<rfloor>; r = x - of_int f
      in if r < 1 / 2 then f
         else if 1 / 2 < r then f + 1
         else if even f then f else f + 1)"

text \<open>
  The double nearest to a rational that is not negative, as a correctly rounded
  conversion gives it: 53 significant bits, the smallest exponent \<open>-1022\<close> (below
  it the spacing stays \<open>2 ^ -1074\<close> and small values round to zero), and infinity
  from \<open>2 ^ 1024\<close> on.
\<close>

definition round_double :: "rat \<Rightarrow> pyfloat" where
  "round_double x =
     (if x \<le> 0 then Finite 0
      else let e = max (binade x) (- 1022);
               q = pow2 (e - 52);
               r = of_int (round_half_even (x / q)) * q
           in if pow2 1024 \<le> r then Infinity else Finite r)"

text \<open>
  \<^verbatim>\<open>float(s)\<close> on what the money patterns capture once the commas are gone:
  digits, at most one dot, digits. It raises \<^verbatim>\<open>ValueError\<close> when there is no
  digit at all; otherwise the result is the double nearest to the decimal number
  written.
\<close>

definition digit_value :: "char \<Rightarrow> nat" where
  "digit_value c = code c - 48"

definition decimal :: "string \<Rightarrow> nat" where
  "decimal ds = foldl (\<lambda>n c. 10 * n + digit_value c) 0 ds"

definition py_float :: "string \<Rightarrow> pyfloat option" where
  "py_float s =
     (let whole = takeWhile is_digit s;
          after = dropWhile is_digit s;
          frac = (case after of [] \<Rightarrow> [] | c # cs \<Rightarrow> cs)
      in if (after = [] \<or> (hd after = CHR ''.'' \<and> list_all is_digit frac))
            \<and> (whole \<noteq> [] \<or> frac \<noteq> [])
         then Some (round_double
                (of_nat (decimal whole) + of_nat (decimal frac) / 10 ^ length frac))
         else None)"

text \<open>
  The amounts: every match of every pattern, in turn, parsed; a match that does not
  parse is passed over.
\<close>

definition amounts :: "string \<Rightarrow> pyfloat list" where
  "amounts text =
     concat (map (\<lambda>m. case py_float (strip_commas m) of None \<Rightarrow> [] | Some a \<Rightarrow> [a])
               (findall_each money_patterns text))"

text \<open>The order of floats, and \<^verbatim>\<open>a < b\<close>.\<close>

fun float_le :: "pyfloat \<Rightarrow> pyfloat \<Rightarrow> bool" where
  "float_le (Finite a) (Finite b) = (a \<le> b)"
| "float_le a Infinity = True"
| "float_le Infinity (Finite b) = False"

definition float_less :: "pyfloat \<Rightarrow> pyfloat \<Rightarrow> bool" where
  "float_less a b = (float_le a b \<and> \<not> float_le b a)"

text \<open>
  \<^verbatim>\<open>max(xs)\<close> of a list that is not empty: the first item is kept until a
  greater one comes.
\<close>

fun py_max :: "pyfloat list \<Rightarrow> pyfloat" where
  "py_max [] = Finite 0"
| "py_max (x # xs) = foldl (\<lambda>m a. if float_less m a then a else m) x xs"

text \<open>A float as a value.\<close>

fun float_val :: "pyfloat \<Rightarrow> pyval" where
  "float_val (Finite r) = PNum r"
| "float_val Infinity = PInf"

definition currency_pattern :: rx where
  "currency_pattern = seqs
     [WordB, Cap 1 (alts (lit ''USD'') [lit ''EUR'', lit ''GBP'', lit ''CAD'', lit ''AUD'']), WordB]"

definition extract_financial_details :: "string \<Rightarrow> pyval" where
  "extract_financial_details text =
     (let total_value = (case amounts text of [] \<Rightarrow> PNone | a # as \<Rightarrow> float_val (py_max (a # as)));
          currency = (case re_search True currency_pattern text of
                        None \<Rightarrow> ''USD''
                      | Some m \<Rightarrow> map to_upper (group m 1))
      in PDict
        [(''line_items'', PList []),
         (''total_value'', total_value),
         (''currency'', PStr currency),
         (''tax_info'', PDict []),
         (''additional_fees'', PList [])])"

subsection \<open>Payment\<close>

definition net_terms :: rx where \<comment> \<open>\<^verbatim>\<open>net\s*(\d+)\<close>\<close>
  "net_terms = seqs [lit ''net'', spaces, Cap 1 digits]"

definition stated_terms :: rx where \<comment> \<open>\<^verbatim>\<open>payment\s*terms?:?\s*([^.\n]+)\<close>\<close>
  "stated_terms = seqs
     [lit ''payment'', spaces, lit ''term'', Opt (chr CHR ''s''), Opt (chr CHR '':''),
      spaces, Cap 1 rest_of_sentence]"

definition due_terms :: rx where \<comment> \<open>\<^verbatim>\<open>due\s*(?:in|within):?\s*(\d+\s*days?)\<close>\<close>
  "due_terms = seqs
     [lit ''due'', spaces, Alt (lit ''in'') (lit ''within''), Opt (chr CHR '':''), spaces,
      Cap 1 (seqs [digits, spaces, lit ''day'', Opt (chr CHR ''s'')])]"

definition payment_terms_patterns :: "rx list" where
  "payment_terms_patterns = [net_terms, stated_terms, due_terms]"

text \<open>
  The loop over the patterns with its \<^verbatim>\<open>break\<close>: the full match of the first
  pattern that is found anywhere in the text.
\<close>

fun first_search :: "rx list \<Rightarrow> string \<Rightarrow> pyval" where
  "first_search [] text = PNone"
| "first_search (p # ps) text =
     (case re_search True p text of
        None \<Rightarrow> first_search ps text
      | Some m \<Rightarrow> PStr (group m 0))"

definition payment_methods_pattern :: rx where
  "payment_methods_pattern = seqs
     [Opt (seqs [lit ''payment'', spaces,
                 alts (lit ''by'') [lit ''via'', lit ''through''],
                 Opt (chr CHR '':''), spaces]),
      alts (lit ''check'')
        [lit ''cheque'', seqs [lit ''wire'', spaces, lit ''transfer''], lit ''ach'',
         seqs [lit ''credit'', spaces, lit ''card''], seqs [lit ''bank'', spaces, lit ''transfer'']]]"

definition extract_payment_structure :: "(string list \<Rightarrow> string list) \<Rightarrow> string \<Rightarrow> pyval" where
  "extract_payment_structure set_list text =
     (let methods = map fst (re_findall True payment_methods_pattern text)
      in PDict
        [(''payment_terms'', first_search payment_terms_patterns text),
         (''due_dates'', PList []),
         (''payment_methods'', str_list (set_list methods)),
         (''banking_details'', PDict [])])"

subsection \<open>Revenue\<close>

text \<open>\<^verbatim>\<open>keyword in text\<close>\<close>

fun contains :: "string \<Rightarrow> string \<Rightarrow> bool" where
  "contains [] keyword = (keyword = [])"
| "contains (c # cs) keyword =
     (take (length keyword) (c # cs) = keyword \<or> contains cs keyword)"

definition any_in :: "string list \<Rightarrow> string \<Rightarrow> bool" where
  "any_in keywords text = list_ex (contains text) keywords"

definition billing_cycle_pattern :: rx where
  "billing_cycle_pattern = seqs
     [WordB,
      Cap 1 (alts (lit ''monthly'') [lit ''quarterly'', lit ''annually'', lit ''yearly'', lit ''weekly'']),
      WordB]"

definition extract_revenue_classification :: "string \<Rightarrow> pyval" where
  "extract_revenue_classification text =
     (let text_lower = map to_lower text;
          has_recurring = any_in
            [''monthly'', ''quarterly'', ''annually'', ''subscription'', ''recurring''] text_lower;
          has_one_time = any_in
            [''one-time'', ''lump sum'', ''upfront'', ''single payment''] text_lower;
          payment_type =
            (if has_recurring \<and> has_one_time then PStr ''both''
             else if has_recurring then PStr ''recurring''
             else if has_one_time then PStr ''one-time''
             else PNone);
          billing_cycle = (case re_search True billing_cycle_pattern text of
                             None \<Rightarrow> PNone
                           | Some m \<Rightarrow> PStr (map to_lower (group m 1)))
      in PDict
        [(''payment_type'', payment_type),
         (''billing_cycle'', billing_cycle),
         (''renewal_terms'', PNone),
         (''auto_renewal'', PBool (any_in
            [''auto-renew'', ''automatically renew'', ''auto renewal''] text_lower))])"

subsection \<open>Service levels\<close>

definition percent :: rx where \<comment> \<open>\<^verbatim>\<open>\d+%?\<close>\<close>
  "percent = seqs [digits, Opt (chr CHR ''%'')]"

definition performance_patterns :: "rx list" where
  "performance_patterns =
     [Cap 1 (seqs [percent, spaces, lit ''uptime'']),
      Cap 1 (seqs [digits, spaces,
                   alts (seqs [lit ''hour'', Opt (chr CHR ''s'')])
                     [seqs [lit ''minute'', Opt (chr CHR ''s'')],
                      seqs [lit ''second'', Opt (chr CHR ''s'')]],
                   spaces, lit ''response'', spaces, lit ''time'']),
      Cap 1 (seqs [lit ''availability'', Opt (chr CHR '':''), spaces, percent])]"

definition penalty_patterns :: "rx list" where
  "penalty_patterns =
     [Cap 1 (seqs [lit ''penalty'', Opt (chr CHR '':''), spaces, rest_of_sentence]),
      Cap 1 (seqs [lit ''liquidated'', spaces, lit ''damages'', Opt (chr CHR '':''), spaces,
                   rest_of_sentence]),
      Cap 1 (seqs [lit ''service'', spaces, lit ''credit'', Opt (chr CHR ''s''),
                   Opt (chr CHR '':''), spaces, rest_of_sentence])]"

definition extract_sla_info :: "string \<Rightarrow> pyval" where
  "extract_sla_info text = PDict
     [(''performance_metrics'', str_list (findall_each performance_patterns text)),
      (''penalty_clauses'', str_list (findall_each penalty_patterns text)),
      (''support_terms'', PNone),
      (''maintenance_terms'', PNone)]"

subsection \<open>The whole parse\<close>

definition get_empty_extracted_data :: pyval where
  "get_empty_extracted_data = PDict
     [(''party_identification'', PDict []),
      (''account_information'', PDict []),
      (''financial_details'', PDict []),
      (''payment_structure'', PDict []),
      (''revenue_classification'', PDict []),
      (''service_level_agreements'', PDict [])]"

text \<open>
  The body of the \<^verbatim>\<open>try\<close>. On a string no extractor raises (the one
  \<^verbatim>\<open>ValueError\<close>, of \<^verbatim>\<open>float\<close>, is caught where it arises), so the only
  exception is that of \<^verbatim>\<open>_clean_text\<close> on an argument that is not a string.
\<close>

definition try_parse :: "(string list \<Rightarrow> string list) \<Rightarrow> pyval \<Rightarrow> error + pyval" where
  "try_parse set_list text_content =
     bindE (clean_text text_content) (\<lambda>cleaned_text. Inr (PDict
       [(''party_identification'', extract_party_info set_list cleaned_text),
        (''account_information'', extract_account_info set_list cleaned_text),
        (''financial_details'', extract_financial_details cleaned_text),
        (''payment_structure'', extract_payment_structure set_list cleaned_text),
        (''revenue_classification'', extract_revenue_classification cleaned_text),
        (''service_level_agreements'', extract_sla_info cleaned_text)]))"

text \<open>\<^verbatim>\<open>parse_contract\<close>: any exception gives the empty structure.\<close>

definition parse_contract :: "(string list \<Rightarrow> string list) \<Rightarrow> pyval \<Rightarrow> pyval" where
  "parse_contract set_list text_content =
     (case try_parse set_list text_content of
        Inl e \<Rightarrow> get_empty_extracted_data
      | Inr extracted_data \<Rightarrow> extracted_data)"

text \<open>
  What the extractors build when nothing in the text matches: every key is there, with
  \<^verbatim>\<open>None\<close>, an empty collection, \<^verbatim>\<open>False\<close>, or the default currency.
\<close>

definition default_extracted_data :: pyval where
  "default_extracted_data = PDict
     [(''party_identification'', PDict
        [(''name'', PNone), (''legal_entity'', PNone), (''registration_details'', PNone),
         (''signatories'', PList []), (''roles'', PList [])]),
      (''account_information'', PDict
        [(''billing_details'', PNone), (''account_numbers'', PList []),
         (''contact_info'', PDict [])]),
      (''financial_details'', PDict
        [(''line_items'', PList []), (''total_value'', PNone), (''currency'', PStr ''USD''),
         (''tax_info'', PDict []), (''additional_fees'', PList [])]),
      (''payment_structure'', PDict
        [(''payment_terms'', PNone), (''due_dates'', PList []),
         (''payment_methods'', PList []), (''banking_details'', PDict [])]),
      (''revenue_classification'', PDict
        [(''payment_type'', PNone), (''billing_cycle'', PNone), (''renewal_terms'', PNone),
         (''auto_renewal'', PBool False)]),
      (''service_level_agreements'', PDict
        [(''performance_metrics'', PList []), (''penalty_clauses'', PList []),
         (''support_terms'', PNone), (''maintenance_terms'', PNone)])]"

text \<open>\<^verbatim>\<open>k in d\<close>\<close>

fun has_key :: "pyval \<Rightarrow> string \<Rightarrow> bool" where
  "has_key (PDict kvs) k = (map_of kvs k \<noteq> None)"
| "has_key _ k = False"

definition section_names :: "string list" where
  "section_names =
     [''party_identification'', ''account_information'', ''financial_details'',
      ''payment_structure'', ''revenue_classification'', ''service_level_agreements'']"

subsection \<open>What cleaning is to achieve\<close>

text \<open>
  The contract of the normaliser in the words of the specification, written without
  regular expressions: every maximal run of whitespace becomes one space.
\<close>

function collapse_runs :: "string \<Rightarrow> string" where
  "collapse_runs [] = []"
| "collapse_runs (c # cs) =
     (if is_space c then CHR '' '' # collapse_runs (dropWhile is_space cs)
      else c # collapse_runs cs)"
  by pat_completeness auto
termination
  by (relation "measure length") (auto simp: less_Suc_eq_le length_dropWhile_le)

text \<open>No two whitespace characters stand next to each other.\<close>

fun single_spaced :: "string \<Rightarrow> bool" where
  "single_spaced (a # b # cs) = (\<not> (is_space a \<and> is_space b) \<and> single_spaced (b # cs))"
| "single_spaced _ = True"

subsection \<open>What the currency search is to find\<close>

text \<open>
  The currency rule in the words of the specification, written without regular
  expressions: one of the five codes, in any case, standing as a word of its own; the
  first such place from the left decides.
\<close>

definition currency_codes :: "string list" where
  "currency_codes = [''USD'', ''EUR'', ''GBP'', ''CAD'', ''AUD'']"

definition code_word_at :: "char option \<Rightarrow> string \<Rightarrow> string option" where
  "code_word_at prev rest =
     (let w = take 3 rest
      in if 3 \<le> length rest \<and> map to_upper w \<in> set currency_codes
            \<and> at_boundary prev rest \<and> at_boundary (Some (last w)) (drop 3 rest)
         then Some w else None)"

fun first_code_word :: "char option \<Rightarrow> string \<Rightarrow> string option" where
  "first_code_word prev [] = None"
| "first_code_word prev (c # cs) =
     (case code_word_at prev (c # cs) of
        Some w \<Rightarrow> Some w
      | None \<Rightarrow> first_code_word (Some c) cs)"

subsection \<open>An extractor that raises\<close>

text \<open>
  \<^verbatim>\<open>parse_contract\<close> wraps the cleaning and the six extractor calls in one
  \<^verbatim>\<open>try\<close> and catches every \<^verbatim>\<open>Exception\<close>. To say what happens when an
  extractor raises (a pattern engine that gives up on its input, say), the parse is
  written once more over six extractors that may raise; the entries of the dictionary
  are evaluated in the order written, and the first exception ends the
  \<^verbatim>\<open>try\<close>. With the extractors of the source it is \<open>try_parse\<close>.
\<close>

record extractors =
  party_ex :: "string \<Rightarrow> error + pyval"
  account_ex :: "string \<Rightarrow> error + pyval"
  financial_ex :: "string \<Rightarrow> error + pyval"
  payment_ex :: "string \<Rightarrow> error + pyval"
  revenue_ex :: "string \<Rightarrow> error + pyval"
  sla_ex :: "string \<Rightarrow> error + pyval"

definition try_parse_with :: "extractors \<Rightarrow> pyval \<Rightarrow> error + pyval" where
  "try_parse_with ex text_content =
     bindE (clean_text text_content) (\<lambda>cleaned_text.
     bindE (party_ex ex cleaned_text) (\<lambda>party.
     bindE (account_ex ex cleaned_text) (\<lambda>account.
     bindE (financial_ex ex cleaned_text) (\<lambda>financial.
     bindE (payment_ex ex cleaned_text) (\<lambda>payment.
     bindE (revenue_ex ex cleaned_text) (\<lambda>revenue.
     bindE (sla_ex ex cleaned_text) (\<lambda>sla.
     Inr (PDict
       [(''party_identification'', party),
        (''account_information'', account),
        (''financial_details'', financial),
        (''payment_structure'', payment),
        (''revenue_classification'', revenue),
        (''service_level_agreements'', sla)]))))))))"

definition parse_contract_with :: "extractors \<Rightarrow> pyval \<Rightarrow> pyval" where
  "parse_contract_with ex text_content =
     (case try_parse_with ex text_content of
        Inl e \<Rightarrow> get_empty_extracted_data
      | Inr extracted_data \<Rightarrow> extracted_data)"

text \<open>The extractors of the source: on a string each of them returns.\<close>

definition source_extractors :: "(string list \<Rightarrow> string list) \<Rightarrow> extractors" where
  "source_extractors set_list =
     \<lparr>party_ex = (\<lambda>t. Inr (extract_party_info set_list t)),
      account_ex = (\<lambda>t. Inr (extract_account_info set_list t)),
      financial_ex = (\<lambda>t. Inr (extract_financial_details t)),
      payment_ex = (\<lambda>t. Inr (extract_payment_structure set_list t)),
      revenue_ex = (\<lambda>t. Inr (extract_revenue_classification t)),
      sla_ex = (\<lambda>t. Inr (extract_sla_info t))\<rparr>"

text \<open>Some extractor raises on the cleaned text.\<close>

definition raises :: "extractors \<Rightarrow> string \<Rightarrow> bool" where
  "raises ex cleaned_text =
     (isl (party_ex ex cleaned_text) \<or> isl (account_ex ex cleaned_text)
      \<or> isl (financial_ex ex cleaned_text) \<or> isl (payment_ex ex cleaned_text)
      \<or> isl (revenue_ex ex cleaned_text) \<or> isl (sla_ex ex cleaned_text))"

text \<open>The extractors of the source with a financial extractor that raises.\<close>

definition faulty_extractors :: extractors where
  "faulty_extractors =
     (source_extractors remdups)\<lparr>financial_ex := (\<lambda>t. Inl RecursionError)\<rparr>"

text \<open>A word of capital ASCII letters.\<close>

definition upper_word :: "string \<Rightarrow> bool" where
  "upper_word s = (\<forall>a \<in> set s. 65 \<le> code a \<and> code a \<le> 90)"

(*PROPERTIES*)
section \<open>Properties of the scorer and the gap analysis\<close>

lemma is_dictE: "is_dict v \<Longrightarrow> \<exists>kvs. v = PDict kvs"
  by (cases v) auto

lemma present_dict: "is_dict v \<Longrightarrow> present v k = Inr (truthy (fld v k))"
  by (cases v) (simp_all add: present_def py_get_def)

lemma get_entry: "is_dict d \<Longrightarrow> py_get_default d k (PDict []) = Inr (entry d k)"
  by (cases d) auto

lemma falsy_dict: "is_dict v \<Longrightarrow> \<not> truthy v \<Longrightarrow> v = PDict []"
  by (cases v) auto

lemma scores_record:
  assumes "is_extracted_data d"
  shows "calculate_confidence_scores d = Inr
    \<lparr>financial_completeness =
        pts (has d ''financial_details'' ''total_value'') 15
        + pts (has d ''financial_details'' ''currency'') 5
        + pts (has d ''financial_details'' ''line_items'') 10,
     party_identification =
        pts (has d ''party_identification'' ''name'') 10
        + pts (has d ''party_identification'' ''legal_entity'') 8
        + pts (has d ''party_identification'' ''signatories'') 7,
     payment_terms_clarity =
        pts (has d ''payment_structure'' ''payment_terms'') 10
        + pts (has d ''payment_structure'' ''payment_methods'') 5
        + pts (has d ''payment_structure'' ''due_dates'') 5,
     sla_definition =
        pts (has d ''service_level_agreements'' ''performance_metrics'') 8
        + pts (has d ''service_level_agreements'' ''penalty_clauses'') 4
        + pts (has d ''service_level_agreements'' ''support_terms'') 3,
     contact_information =
        pts (has_contact d ''email'') 5
        + pts (has_contact d ''phone'') 3
        + pts (has d ''account_information'' ''account_numbers'') 2,
     overall_score =
        pts (has d ''financial_details'' ''total_value'') 15
        + pts (has d ''financial_details'' ''currency'') 5
        + pts (has d ''financial_details'' ''line_items'') 10
        + (pts (has d ''party_identification'' ''name'') 10
        + pts (has d ''party_identification'' ''legal_entity'') 8
        + pts (has d ''party_identification'' ''signatories'') 7)
        + (pts (has d ''payment_structure'' ''payment_terms'') 10
        + pts (has d ''payment_structure'' ''payment_methods'') 5
        + pts (has d ''payment_structure'' ''due_dates'') 5)
        + (pts (has d ''service_level_agreements'' ''performance_metrics'') 8
        + pts (has d ''service_level_agreements'' ''penalty_clauses'') 4
        + pts (has d ''service_level_agreements'' ''support_terms'') 3)
        + (pts (has_contact d ''email'') 5
        + pts (has_contact d ''phone'') 3
        + pts (has d ''account_information'' ''account_numbers'') 2)\<rparr>"
proof -
  from assms have top: "is_dict d"
    and f: "is_dict (entry d ''financial_details'')"
    and p: "is_dict (entry d ''party_identification'')"
    and y: "is_dict (entry d ''payment_structure'')"
    and s: "is_dict (entry d ''service_level_agreements'')"
    and a: "is_dict (entry d ''account_information'')"
    and c: "is_dict (entry (entry d ''account_information'') ''contact_info'')"
    by (simp_all add: is_extracted_data_def)
  have e: "\<not> truthy (entry d ''account_information'') \<Longrightarrow> entry d ''account_information'' = PDict []"
    using a by (rule falsy_dict)
  show ?thesis
  proof (cases "truthy (entry d ''account_information'')")
    case True
    then show ?thesis
      unfolding calculate_confidence_scores_def
      by (simp add: get_entry[OF top] get_entry[OF a] present_dict[OF f] present_dict[OF p]
         present_dict[OF y] present_dict[OF s] present_dict[OF a] present_dict[OF c]
         has_def has_contact_def Let_def)
  next
    case False
    then have e': "entry d ''account_information'' = PDict []" by (rule e)
    show ?thesis
      unfolding calculate_confidence_scores_def
      by (simp add: get_entry[OF top] present_dict[OF f] present_dict[OF p]
         present_dict[OF y] present_dict[OF s] e' present_dict
         has_def has_contact_def Let_def)
  qed
qed


lemma pts_bounds: "0 \<le> w \<Longrightarrow> 0 \<le> pts b w \<and> pts b w \<le> w"
  by (simp add: pts_def)

lemma scores_normal_form:
  assumes "is_extracted_data d"
  shows "\<exists>s. calculate_confidence_scores d = Inr s
    \<and> financial_completeness s =
        pts (has d ''financial_details'' ''total_value'') 15
        + pts (has d ''financial_details'' ''currency'') 5
        + pts (has d ''financial_details'' ''line_items'') 10
    \<and> party_identification s =
        pts (has d ''party_identification'' ''name'') 10
        + pts (has d ''party_identification'' ''legal_entity'') 8
        + pts (has d ''party_identification'' ''signatories'') 7
    \<and> payment_terms_clarity s =
        pts (has d ''payment_structure'' ''payment_terms'') 10
        + pts (has d ''payment_structure'' ''payment_methods'') 5
        + pts (has d ''payment_structure'' ''due_dates'') 5
    \<and> sla_definition s =
        pts (has d ''service_level_agreements'' ''performance_metrics'') 8
        + pts (has d ''service_level_agreements'' ''penalty_clauses'') 4
        + pts (has d ''service_level_agreements'' ''support_terms'') 3
    \<and> contact_information s =
        pts (has_contact d ''email'') 5
        + pts (has_contact d ''phone'') 3
        + pts (has d ''account_information'' ''account_numbers'') 2
    \<and> overall_score s = financial_completeness s + party_identification s
          + payment_terms_clarity s + sla_definition s + contact_information s"
  unfolding scores_record[OF assms] by simp

lemma pts3: "0 \<le> a \<Longrightarrow> 0 \<le> b \<Longrightarrow> 0 \<le> c \<Longrightarrow>
   0 \<le> pts x a + pts y b + pts z c \<and> pts x a + pts y b + pts z c \<le> a + b + c"
  by (simp add: pts_def)

lemma gap_record:
  assumes "is_extracted_data d"
  shows "perform_gap_analysis d = Inr
    \<lparr>missing_fields =
       append_if (\<not> has d ''account_information'' ''contact_info'') ''Contact information''
       (append_if (\<not> has d ''service_level_agreements'' ''performance_metrics'') ''Performance metrics''
       (append_if (\<not> has d ''payment_structure'' ''payment_methods'') ''Payment methods''
       (append_if (\<not> has d ''payment_structure'' ''payment_terms'') ''Payment terms''
       (append_if (\<not> has d ''party_identification'' ''signatories'') ''Authorized signatories''
       (append_if (\<not> has d ''party_identification'' ''name'') ''Party names''
       (append_if (\<not> has d ''financial_details'' ''line_items'') ''Detailed line items''
       (append_if (\<not> has d ''financial_details'' ''total_value'') ''Total contract value''
          []))))))),
     incomplete_sections =
       append_if (\<not> has d ''financial_details'' ''tax_info'') ''Tax information'' [],
     recommendations =
       (let missing =
       append_if (\<not> has d ''account_information'' ''contact_info'') ''Contact information''
       (append_if (\<not> has d ''service_level_agreements'' ''performance_metrics'') ''Performance metrics''
       (append_if (\<not> has d ''payment_structure'' ''payment_methods'') ''Payment methods''
       (append_if (\<not> has d ''payment_structure'' ''payment_terms'') ''Payment terms''
       (append_if (\<not> has d ''party_identification'' ''signatories'') ''Authorized signatories''
       (append_if (\<not> has d ''party_identification'' ''name'') ''Party names''
       (append_if (\<not> has d ''financial_details'' ''line_items'') ''Detailed line items''
       (append_if (\<not> has d ''financial_details'' ''total_value'') ''Total contract value''
          [])))))))
       in append_if (\<not> has d ''financial_details'' ''total_value'')
            ''Verify contract value with client before processing payments''
          (append_if (length missing > 5)
            ''Consider manual review due to significant missing information''
          (append_if (missing \<noteq> [])
            ''Request additional contract documentation to fill missing fields'' [])))\<rparr>"
proof -
  from assms have top: "is_dict d"
    and f: "is_dict (entry d ''financial_details'')"
    and p: "is_dict (entry d ''party_identification'')"
    and y: "is_dict (entry d ''payment_structure'')"
    and s: "is_dict (entry d ''service_level_agreements'')"
    and a: "is_dict (entry d ''account_information'')"
    by (simp_all add: is_extracted_data_def)
  show ?thesis
  proof (cases "truthy (entry d ''account_information'')")
    case True
    then show ?thesis
      unfolding perform_gap_analysis_def
      by (simp add: get_entry[OF top] present_dict[OF f] present_dict[OF p]
         present_dict[OF y] present_dict[OF s] present_dict[OF a]
         has_def Let_def)
  next
    case False
    then have e': "entry d ''account_information'' = PDict []" using a by (simp add: falsy_dict)
    show ?thesis
      unfolding perform_gap_analysis_def
      by (simp add: get_entry[OF top] present_dict[OF f] present_dict[OF p]
         present_dict[OF y] present_dict[OF s] e'
         has_def Let_def)
  qed
qed


lemma gap_normal_form:
  assumes "is_extracted_data d"
  shows "\<exists>g. perform_gap_analysis d = Inr g
    \<and> missing_fields g =
       append_if (\<not> has d ''account_information'' ''contact_info'') ''Contact information''
       (append_if (\<not> has d ''service_level_agreements'' ''performance_metrics'') ''Performance metrics''
       (append_if (\<not> has d ''payment_structure'' ''payment_methods'') ''Payment methods''
       (append_if (\<not> has d ''payment_structure'' ''payment_terms'') ''Payment terms''
       (append_if (\<not> has d ''party_identification'' ''signatories'') ''Authorized signatories''
       (append_if (\<not> has d ''party_identification'' ''name'') ''Party names''
       (append_if (\<not> has d ''financial_details'' ''line_items'') ''Detailed line items''
       (append_if (\<not> has d ''financial_details'' ''total_value'') ''Total contract value''
          [])))))))
    \<and> incomplete_sections g =
       append_if (\<not> has d ''financial_details'' ''tax_info'') ''Tax information'' []
    \<and> recommendations g =
       append_if (\<not> has d ''financial_details'' ''total_value'')
            ''Verify contract value with client before processing payments''
          (append_if (length (missing_fields g) > 5)
            ''Consider manual review due to significant missing information''
          (append_if (missing_fields g \<noteq> [])
            ''Request additional contract documentation to fill missing fields'' []))"
  unfolding gap_record[OF assms] by (simp add: Let_def)

lemma append_if3:
  "append_if c C (append_if b B (append_if a A [])) =
     (if a then [A] else []) @ (if b then [B] else []) @ (if c then [C] else [])"
  by (simp add: append_if_def)

lemma in_append_if: "x \<in> set (append_if c l xs) \<longleftrightarrow> (c \<and> x = l) \<or> x \<in> set xs"
  by (auto simp: append_if_def)

lemma truthy_fld: "truthy (fld x k) \<Longrightarrow> truthy x"
  by (cases x) (auto split: option.splits)

lemma entry_fld: "truthy (entry v k) \<Longrightarrow> fld v k = entry v k"
  by (cases v) (auto split: option.splits)

lemma has_contact_imp: "has_contact d k \<Longrightarrow> has d ''account_information'' ''contact_info''"
  unfolding has_contact_def has_def
  using truthy_fld entry_fld by metis

lemma map_of_dict_set: "map_of (dict_set kvs k v) k' = (if k' = k then Some v else map_of kvs k')"
  by (induction kvs) auto

lemma dict_set_nonempty: "dict_set kvs k v \<noteq> []"
  by (cases kvs) auto

lemma entry_set_field:
  "entry d sec = PDict fs \<Longrightarrow> is_dict d \<Longrightarrow>
   entry (set_field d sec k v) sec' =
     (if sec' = sec then PDict (dict_set fs k v) else entry d sec')"
  by (cases d) (auto simp: map_of_dict_set)

lemma fld_dict_set: "fld (PDict (dict_set fs k v)) k' = (if k' = k then v else fld (PDict fs) k')"
  by (simp add: map_of_dict_set)

lemma set_field_not_dict: "\<not> is_dict (entry d sec) \<Longrightarrow> set_field d sec k v = d"
  by (cases d; cases "entry d sec") (auto)

lemma has_set_field:
  assumes "is_dict d" "is_dict (entry d sec)"
  shows "has (set_field d sec k v) sec' k' =
     (if sec' = sec \<and> k' = k then truthy v else has d sec' k')"
proof -
  from assms(2) obtain fs where fs: "entry d sec = PDict fs" by (auto dest: is_dictE)
  show ?thesis
    unfolding has_def entry_set_field[OF fs assms(1)]
    by (simp add: fs map_of_dict_set)
qed


lemma pts_mono: "(a \<Longrightarrow> b) \<Longrightarrow> 0 \<le> w \<Longrightarrow> pts a w \<le> pts b w"
  by (auto simp: pts_def)

lemma has_contact_set_field:
  assumes "is_dict d" "is_dict (entry d sec)"
  shows "has_contact (set_field d sec k v) k' =
     (if sec = ''account_information'' \<and> k = ''contact_info''
      then truthy (fld v k') else has_contact d k')"
proof -
  from assms(2) obtain fs where fs: "entry d sec = PDict fs" by (auto dest: is_dictE)
  show ?thesis
    unfolding has_contact_def entry_set_field[OF fs assms(1)]
    by (auto simp add: fs map_of_dict_set)
qed

lemma has_mono_field:
  assumes "is_dict d" "truthy v" "has d sec' k'"
  shows "has (set_field d sec k v) sec' k'"
proof (cases "is_dict (entry d sec)")
  case True
  from has_set_field[OF assms(1) True] assms(2,3) show ?thesis by simp
next
  case False
  then show ?thesis using assms(3) by (simp add: set_field_not_dict)
qed

lemma falsy_no_contact:
  assumes "\<not> truthy (fld (entry d ''account_information'') ''contact_info'')"
  shows "\<not> has_contact d k'"
  using assms has_contact_imp[of d k'] by (auto simp add: has_def)

lemma has_contact_mono_field:
  assumes "is_dict d" "\<not> truthy (fld (entry d sec) k)" "has_contact d k'"
  shows "has_contact (set_field d sec k v) k'"
proof (cases "is_dict (entry d sec)")
  case True
  show ?thesis
  proof (cases "sec = ''account_information'' \<and> k = ''contact_info''")
    case True
    with assms(2,3) falsy_no_contact show ?thesis by blast
  next
    case False
    with has_contact_set_field[OF assms(1) \<open>is_dict (entry d sec)\<close>] assms(3)
    show ?thesis by auto
  qed
next
  case False
  then show ?thesis using assms(3) by (simp add: set_field_not_dict)
qed

lemma mono_with_field:
  assumes "is_dict d" "truthy v" "\<not> truthy (field_value d r)"
  shows "(has d sec' k' \<longrightarrow> has (with_field d r v) sec' k')
       \<and> (has_contact d k' \<longrightarrow> has_contact (with_field d r v) k')"
proof (cases r)
  case (Field sec k)
  with assms has_mono_field has_contact_mono_field show ?thesis by simp
next
  case (Contact k)
  show ?thesis
  proof (cases "entry (entry d ''account_information'') ''contact_info''")
    case (PDict cs)
    let ?v = "PDict (dict_set cs k v)"
    let ?d = "set_field d ''account_information'' ''contact_info'' ?v"
    have wf: "with_field d r v = ?d" using Contact PDict by simp
    have tv: "truthy ?v" by (simp add: dict_set_nonempty)
    have h: "has d sec' k' \<longrightarrow> has ?d sec' k'"
      using has_mono_field[OF assms(1) tv] by blast
    have c: "has_contact d k' \<longrightarrow> has_contact ?d k'"
    proof (cases "is_dict (entry d ''account_information'')")
      case True
      have "has_contact ?d k' = truthy (fld ?v k')"
        using has_contact_set_field[OF assms(1) True] by simp
      also have "\<dots> = (if k' = k then truthy v else has_contact d k')"
        by (simp add: map_of_dict_set has_contact_def PDict)
      finally show ?thesis using assms(2) by simp
    next
      case False
      then show ?thesis by (simp add: set_field_not_dict)
    qed
    from h c wf show ?thesis by simp
  qed (use Contact in simp_all)
qed


lemma is_dict_set_field: "is_dict d \<Longrightarrow> is_dict (set_field d sec k v)"
  by (cases d; cases "entry d sec") auto

lemma wf_set_field:
  assumes "is_extracted_data d"
    and "sec = ''account_information'' \<and> k = ''contact_info'' \<longrightarrow> is_dict v"
  shows "is_extracted_data (set_field d sec k v)"
proof (cases "is_dict (entry d sec)")
  case True
  then obtain fs where fs: "entry d sec = PDict fs" by (auto dest: is_dictE)
  from assms(1) have top: "is_dict d" by (simp add: is_extracted_data_def)
  note e = entry_set_field[OF fs top]
  from assms fs show ?thesis
    unfolding is_extracted_data_def e
    by (auto simp: is_dict_set_field map_of_dict_set)
next
  case False
  then show ?thesis using assms(1) by (simp add: set_field_not_dict)
qed

lemma wf_with_field:
  assumes "is_extracted_data d"
    and "r = Field ''account_information'' ''contact_info'' \<longrightarrow> is_dict v"
  shows "is_extracted_data (with_field d r v)"
proof (cases r)
  case (Field sec k)
  with assms wf_set_field show ?thesis by simp
next
  case (Contact k)
  from assms(1) obtain cs where "entry (entry d ''account_information'') ''contact_info'' = PDict cs"
    by (auto simp: is_extracted_data_def dest: is_dictE)
  with Contact assms(1) wf_set_field show ?thesis by simp
qed

lemma scores_monotone_general:
  assumes d: "is_extracted_data d" and d': "is_extracted_data d'"
    and h: "\<And>sec k. has d sec k \<Longrightarrow> has d' sec k"
    and c: "\<And>k. has_contact d k \<Longrightarrow> has_contact d' k"
  shows "\<exists>s s'. calculate_confidence_scores d = Inr s
      \<and> calculate_confidence_scores d' = Inr s'
      \<and> financial_completeness s \<le> financial_completeness s'
      \<and> party_identification s \<le> party_identification s'
      \<and> payment_terms_clarity s \<le> payment_terms_clarity s'
      \<and> sla_definition s \<le> sla_definition s'
      \<and> contact_information s \<le> contact_information s'
      \<and> overall_score s \<le> overall_score s'"
proof -
  from scores_normal_form[OF d] obtain s where
    s: "calculate_confidence_scores d = Inr s"
    and f: "financial_completeness s =
        pts (has d ''financial_details'' ''total_value'') 15
        + pts (has d ''financial_details'' ''currency'') 5
        + pts (has d ''financial_details'' ''line_items'') 10"
    and p: "party_identification s =
        pts (has d ''party_identification'' ''name'') 10
        + pts (has d ''party_identification'' ''legal_entity'') 8
        + pts (has d ''party_identification'' ''signatories'') 7"
    and y: "payment_terms_clarity s =
        pts (has d ''payment_structure'' ''payment_terms'') 10
        + pts (has d ''payment_structure'' ''payment_methods'') 5
        + pts (has d ''payment_structure'' ''due_dates'') 5"
    and l: "sla_definition s =
        pts (has d ''service_level_agreements'' ''performance_metrics'') 8
        + pts (has d ''service_level_agreements'' ''penalty_clauses'') 4
        + pts (has d ''service_level_agreements'' ''support_terms'') 3"
    and k: "contact_information s =
        pts (has_contact d ''email'') 5
        + pts (has_contact d ''phone'') 3
        + pts (has d ''account_information'' ''account_numbers'') 2"
    and ov: "overall_score s = financial_completeness s + party_identification s
          + payment_terms_clarity s + sla_definition s + contact_information s"
    by blast
  from scores_normal_form[OF d'] obtain s' where
    s': "calculate_confidence_scores d' = Inr s'"
    and f': "financial_completeness s' =
        pts (has d' ''financial_details'' ''total_value'') 15
        + pts (has d' ''financial_details'' ''currency'') 5
        + pts (has d' ''financial_details'' ''line_items'') 10"
    and p': "party_identification s' =
        pts (has d' ''party_identification'' ''name'') 10
        + pts (has d' ''party_identification'' ''legal_entity'') 8
        + pts (has d' ''party_identification'' ''signatories'') 7"
    and y': "payment_terms_clarity s' =
        pts (has d' ''payment_structure'' ''payment_terms'') 10
        + pts (has d' ''payment_structure'' ''payment_methods'') 5
        + pts (has d' ''payment_structure'' ''due_dates'') 5"
    and l': "sla_definition s' =
        pts (has d' ''service_level_agreements'' ''performance_metrics'') 8
        + pts (has d' ''service_level_agreements'' ''penalty_clauses'') 4
        + pts (has d' ''service_level_agreements'' ''support_terms'') 3"
    and k': "contact_information s' =
        pts (has_contact d' ''email'') 5
        + pts (has_contact d' ''phone'') 3
        + pts (has d' ''account_information'' ''account_numbers'') 2"
    and ov': "overall_score s' = financial_completeness s' + party_identification s'
          + payment_terms_clarity s' + sla_definition s' + contact_information s'"
    by blast
  have H: "pts (has d sec k) w \<le> pts (has d' sec k) w" if "0 \<le> w" for sec k w
    using h that by (intro pts_mono)
  have C: "pts (has_contact d k) w \<le> pts (has_contact d' k) w" if "0 \<le> w" for k w
    using c that by (intro pts_mono)
  have 1: "financial_completeness s \<le> financial_completeness s'"
    unfolding f f' by (intro add_mono H) simp_all
  have 2: "party_identification s \<le> party_identification s'"
    unfolding p p' by (intro add_mono H) simp_all
  have 3: "payment_terms_clarity s \<le> payment_terms_clarity s'"
    unfolding y y' by (intro add_mono H) simp_all
  have 4: "sla_definition s \<le> sla_definition s'"
    unfolding l l' by (intro add_mono H) simp_all
  have 5: "contact_information s \<le> contact_information s'"
    unfolding k k' by (intro add_mono H C) simp_all
  have 6: "overall_score s \<le> overall_score s'"
    unfolding ov ov' using 1 2 3 4 5 by (intro add_mono)
  from s s' 1 2 3 4 5 6 show ?thesis by blast
qed


lemma lists_set_Nil: "lists_set f \<Longrightarrow> f [] = []"
proof -
  assume "lists_set f"
  then have "set (f []) = set []" unfolding lists_set_def by blast
  then show ?thesis by simp
qed

lemma findall_nil: "match_here ic r False None [] = None \<Longrightarrow> re_findall ic r [] = []"
  by (simp add: re_findall_def)

lemma clean_empty: "clean_text (PStr []) = Inr []"
  by (simp add: re_sub_def strip_def match_here_def space_run_def)

lemma party_empty: "lists_set f \<Longrightarrow> extract_party_info f [] = PDict
     [(''name'', PNone), (''legal_entity'', PNone),
      (''registration_details'', PNone), (''signatories'', PList []),
      (''roles'', PList [])]"
  by (simp add: extract_party_info_def companies_def company_patterns_def re_findall_def
      match_here_def upper_letter_def name_chars_def legal_suffix_def chr_def
      findall_each_def signatory_patterns_def findall_group1_def spaces_def str_list_def lists_set_Nil)

lemma account_empty: "lists_set f \<Longrightarrow> extract_account_info f [] = PDict
     [(''billing_details'', PNone), (''account_numbers'', PList []),
      (''contact_info'', PDict [])]"
  by (simp add: extract_account_info_def account_patterns_def re_findall_def
      match_here_def account_id_def email_pattern_def phone_pattern_def chr_def
      findall_each_def findall_group1_def spaces_def str_list_def lists_set_Nil
      at_boundary_def)

lemma financial_empty: "extract_financial_details [] = PDict
     [(''line_items'', PList []), (''total_value'', PNone),
      (''currency'', PStr ''USD''), (''tax_info'', PDict []),
      (''additional_fees'', PList [])]"
  by (simp add: extract_financial_details_def amounts_def money_patterns_def re_findall_def
      match_here_def number_def chr_def currency_pattern_def re_search_def
      findall_each_def findall_group1_def spaces_def at_boundary_def)

lemma payment_empty: "lists_set f \<Longrightarrow> extract_payment_structure f [] = PDict
     [(''payment_terms'', PNone), (''due_dates'', PList []),
      (''payment_methods'', PList []), (''banking_details'', PDict [])]"
  by (simp add: extract_payment_structure_def payment_terms_patterns_def re_findall_def
      net_terms_def stated_terms_def due_terms_def
      match_here_def payment_methods_pattern_def chr_def re_search_def digits_def
      rest_of_sentence_def spaces_def str_list_def lists_set_Nil)

lemma revenue_empty: "extract_revenue_classification [] = PDict
     [(''payment_type'', PNone), (''billing_cycle'', PNone),
      (''renewal_terms'', PNone), (''auto_renewal'', PBool False)]"
  by (simp add: extract_revenue_classification_def any_in_def billing_cycle_pattern_def
      re_search_def match_here_def at_boundary_def)

lemma sla_empty: "extract_sla_info [] = PDict
     [(''performance_metrics'', PList []), (''penalty_clauses'', PList []),
      (''support_terms'', PNone), (''maintenance_terms'', PNone)]"
  by (simp add: extract_sla_info_def performance_patterns_def penalty_patterns_def
      re_findall_def match_here_def percent_def digits_def chr_def rest_of_sentence_def
      findall_each_def findall_group1_def spaces_def str_list_def)

lemma try_parse_empty:
  assumes "lists_set f"
  shows "try_parse f (PStr []) = Inr default_extracted_data"
  unfolding try_parse_def clean_empty default_extracted_data_def
  by (simp add: party_empty[OF assms] account_empty[OF assms] financial_empty
      payment_empty[OF assms] revenue_empty sla_empty)

lemma scores_default:
  "calculate_confidence_scores default_extracted_data =
     Inr \<lparr>financial_completeness = 5, party_identification = 0,
          payment_terms_clarity = 0, sla_definition = 0,
          contact_information = 0, overall_score = 5\<rparr>"
  by (simp add: calculate_confidence_scores_def default_extracted_data_def present_def
      py_get_def pts_def)

lemma lists_set_remdups: "lists_set remdups"
  by (simp add: lists_set_def)

lemma try_parse_str: "\<exists>d. try_parse f (PStr t) = Inr d"
  by (simp add: try_parse_def)

lemma try_parse_raises: "try_parse f x = Inl e \<Longrightarrow> e = TypeError \<and> (\<forall>t. x \<noteq> PStr t)"
  by (cases x) (auto simp: try_parse_def)

lemma parse_sections:
  "try_parse f (PStr t) = Inr d \<Longrightarrow>
     is_dict d
     \<and> entry d ''party_identification'' = extract_party_info f (strip (re_sub False space_run '' '' t))
     \<and> entry d ''account_information'' = extract_account_info f (strip (re_sub False space_run '' '' t))
     \<and> entry d ''financial_details'' = extract_financial_details (strip (re_sub False space_run '' '' t))
     \<and> entry d ''payment_structure'' = extract_payment_structure f (strip (re_sub False space_run '' '' t))
     \<and> entry d ''service_level_agreements'' = extract_sla_info (strip (re_sub False space_run '' '' t))"
  by (auto simp: try_parse_def)

lemma extractors_dict:
  "is_dict (extract_party_info f t)" "is_dict (extract_account_info f t)"
  "is_dict (extract_financial_details t)" "is_dict (extract_payment_structure f t)"
  "is_dict (extract_sla_info t)"
  "is_dict (entry (extract_account_info f t) ''contact_info'')"
  by (simp_all add: extract_party_info_def extract_account_info_def extract_financial_details_def
      extract_payment_structure_def extract_sla_info_def Let_def)

lemma tax_info_empty: "fld (extract_financial_details t) ''tax_info'' = PDict []"
  by (simp add: extract_financial_details_def Let_def)

lemma parse_is_extracted_data:
  assumes "try_parse f x = Inr d"
  shows "is_extracted_data d"
proof -
  from assms obtain t where x: "x = PStr t"
    by (cases x) (auto simp: try_parse_def)
  from parse_sections[OF assms[unfolded x]] show ?thesis
    by (simp add: is_extracted_data_def extractors_dict)
qed

lemma fin5: "extract_financial_details ''Total: $5'' = PDict
     [(''line_items'', PList []), (''total_value'', PNum 5),
      (''currency'', PStr ''USD''), (''tax_info'', PDict []),
      (''additional_fees'', PList [])]"
  by code_simp

lemma clean5: "clean_text (PStr ''Total:  $5 '') = Inr ''Total: $5''"
  by code_simp

lemma cls_space: "cls_match False (Pos [CSpace]) = is_space"
  by (rule ext) (simp add: item_match_def)

lemma match_here_ws_none:
  "rest = [] \<or> \<not> is_space (hd rest) \<Longrightarrow>
   match_here False space_run must prev rest = None"
  by (cases rest) (auto simp: match_here_def cls_space space_run_def)

lemma match_here_ws_some:
  assumes "is_space c"
  shows "match_here False space_run must prev (c # cs) =
     Some ((c # takeWhile is_space cs, []), Some (last (c # takeWhile is_space cs)),
           dropWhile is_space cs)"
proof -
  let ?n = "length (takeWhile is_space cs)"
  let ?st = "(prev, c # cs, [] :: caps)"
  have n: "?n \<le> length cs" by (rule length_takeWhile_le)
  have tk: "take ?n cs = takeWhile is_space cs" by (simp add: takeWhile_eq_take[symmetric])
  have dr: "drop ?n cs = dropWhile is_space cs" by (simp add: dropWhile_eq_drop[symmetric])
  have run: "length (takeWhile (cls_match False (Pos [CSpace])) (c # cs)) = Suc ?n"
    using assms by (simp add: cls_space)
  have up: "rev [1 ..< Suc (Suc ?n)] = Suc ?n # rev [1 ..< Suc ?n]" by simp
  have rm: "rmatch False space_run ?st =
      advance (Suc ?n) ?st # map (\<lambda>k. advance k ?st) (rev [1 ..< Suc ?n])"
    unfolding space_run_def rmatch.simps run Let_def option.case up by simp
  have adv: "advance (Suc ?n) ?st =
      (Some (last (c # takeWhile is_space cs)), dropWhile is_space cs, [])"
    by (simp add: advance_def tk dr)
  have len: "length (dropWhile is_space cs) \<noteq> length (c # cs)"
    using length_dropWhile_le[of is_space cs] by simp
  have m: "take (length (c # cs) - length (dropWhile is_space cs)) (c # cs)
      = c # takeWhile is_space cs"
  proof -
    have "length (dropWhile is_space cs) = length cs - ?n"
      unfolding dr[symmetric] by simp
    then have "length (c # cs) - length (dropWhile is_space cs) = Suc ?n"
      using n by simp
    then show ?thesis by (simp add: tk)
  qed
  show ?thesis
    unfolding match_here_def rm adv using len m by simp
qed

lemma sub_ws_collapse:
  "concat (map (\<lambda>s. case s of Skipped c \<Rightarrow> [c] | Matched m \<Rightarrow> '' '')
      (scan False space_run False prev rest)) = collapse_runs rest"
proof (induction rest arbitrary: prev rule: collapse_runs.induct)
  case 1
  show ?case by (simp add: match_here_ws_none)
next
  case (2 c cs)
  show ?case
  proof (cases "is_space c")
    case True
    show ?thesis
      using True 2(1)[OF True]
      by (subst scan.simps) (simp add: match_here_ws_some)
  next
    case False
    show ?thesis
      using False 2(2)[OF False]
      by (subst scan.simps) (simp add: match_here_ws_none)
  qed
qed

lemma clean_text_collapse: "clean_text (PStr t) = Inr (strip (collapse_runs t))"
  by (simp only: clean_text.simps re_sub_def sub_ws_collapse)

lemma collapse_spaces: "c \<in> set (collapse_runs t) \<Longrightarrow> is_space c \<Longrightarrow> c = CHR '' ''"
  by (induction t rule: collapse_runs.induct) (auto split: if_splits)

lemma space_is_space: "is_space CHR '' ''"
  by (simp add: is_space_def code_def)

lemma hd_dropWhile_not: "dropWhile P xs \<noteq> [] \<Longrightarrow> \<not> P (hd (dropWhile P xs))"
  by (induction xs) auto

lemma collapse_after_run:
  assumes "collapse_runs (dropWhile is_space cs) \<noteq> []"
  shows "\<not> is_space (hd (collapse_runs (dropWhile is_space cs)))"
proof (cases "dropWhile is_space cs")
  case Nil
  with assms show ?thesis by simp
next
  case (Cons d ds)
  then have "\<not> is_space d" using hd_dropWhile_not[of is_space cs] by simp
  then show ?thesis using Cons by simp
qed

lemma single_spaced_Cons:
  "single_spaced (a # xs) = ((xs \<noteq> [] \<longrightarrow> \<not> (is_space a \<and> is_space (hd xs))) \<and> single_spaced xs)"
  by (cases xs) auto

lemma collapse_single_spaced: "single_spaced (collapse_runs t)"
proof (induction t rule: collapse_runs.induct)
  case 1
  show ?case by simp
next
  case (2 c cs)
  show ?case
  proof (cases "is_space c")
    case True
    with 2(1) collapse_after_run[of cs] show ?thesis
      by (simp add: single_spaced_Cons)
  next
    case False
    with 2(2) show ?thesis by (simp add: single_spaced_Cons)
  qed
qed

lemma single_spaced_dropWhile: "single_spaced xs \<Longrightarrow> single_spaced (dropWhile P xs)"
  by (induction xs rule: single_spaced.induct) auto

lemma single_spaced_append_last:
  "single_spaced (xs @ [a]) = (single_spaced xs \<and> (xs \<noteq> [] \<longrightarrow> \<not> (is_space (last xs) \<and> is_space a)))"
  by (induction xs rule: single_spaced.induct) auto

lemma single_spaced_rev: "single_spaced (rev xs) = single_spaced xs"
  by (induction xs) (auto simp: single_spaced_append_last single_spaced_Cons last_rev)

lemma strip_single_spaced: "single_spaced xs \<Longrightarrow> single_spaced (strip xs)"
  by (simp add: strip_def single_spaced_rev single_spaced_dropWhile)

lemma strip_subset: "set (strip xs) \<subseteq> set xs"
  by (auto simp: strip_def dest!: set_dropWhileD)

lemma strip_ends:
  "strip xs \<noteq> [] \<Longrightarrow> \<not> is_space (hd (strip xs)) \<and> \<not> is_space (last (strip xs))"
proof -
  assume ne: "strip xs \<noteq> []"
  let ?ys = "dropWhile is_space (rev (dropWhile is_space xs))"
  have s: "strip xs = rev ?ys" by (simp add: strip_def)
  from ne s have y: "?ys \<noteq> []" by simp
  then have l: "\<not> is_space (hd ?ys)" by (rule hd_dropWhile_not)
  have last: "last (strip xs) = hd ?ys" using y unfolding s by (simp add: last_rev)
  have "hd (strip xs) = last ?ys" using y unfolding s by (simp add: hd_rev)
  also have "last ?ys = last (rev (dropWhile is_space xs))"
    using y by (metis dropWhile_eq_Nil_conv last_appendR takeWhile_dropWhile_id)
  also have "\<dots> = hd (dropWhile is_space xs)"
    using y by (metis dropWhile.simps(1) last_rev rev_is_Nil_conv)
  finally have h: "hd (strip xs) = hd (dropWhile is_space xs)" .
  have "dropWhile is_space xs \<noteq> []" using y by (cases "dropWhile is_space xs") auto
  then have "\<not> is_space (hd (dropWhile is_space xs))" by (rule hd_dropWhile_not)
  with h l last show ?thesis by simp
qed

lemma net_found: "re_search True net_terms ''due in 5 days net 30'' = Some (''net 30'', [(1, ''30'')])"
  by code_simp

lemma due_found: "re_search True due_terms ''due in 5 days net 30'' = Some (''due in 5 days'', [(1, ''5 days'')])"
  by code_simp

lemma none_found: "re_search True net_terms ''pay on time'' = None"
  "re_search True stated_terms ''pay on time'' = None"
  "re_search True due_terms ''pay on time'' = None"
  by code_simp+

lemma match_here_prefix:
  "match_here ic r must prev rest = Some (m, prev', rest') \<Longrightarrow> \<exists>post. rest = fst m @ post"
  by (auto simp: match_here_def split: list.splits)
     (metis append_take_drop_id)

lemma search_from_substring:
  "search_from ic r prev rest = Some m \<Longrightarrow> \<exists>pre post. rest = pre @ fst m @ post"
proof (induction rest arbitrary: prev)
  case Nil
  then obtain p t where "match_here ic r False prev [] = Some (m, p, t)"
    by (auto split: option.splits)
  from match_here_prefix[OF this] show ?case by (metis append_Nil)
next
  case (Cons c cs)
  show ?case
  proof (cases "match_here ic r False prev (c # cs)")
    case None
    with Cons.prems have "search_from ic r (Some c) cs = Some m" by simp
    from Cons.IH[OF this] obtain pre post where "cs = pre @ fst m @ post" by blast
    then have "c # cs = (c # pre) @ fst m @ post" by simp
    then show ?thesis by blast
  next
    case (Some x)
    with Cons.prems obtain p t where "match_here ic r False prev (c # cs) = Some (m, p, t)"
      by (cases x) auto
    from match_here_prefix[OF this] show ?thesis by (metis append_Nil)
  qed
qed

lemma re_search_substring:
  "re_search ic r text = Some m \<Longrightarrow> \<exists>pre post. text = pre @ group m 0 @ post"
  unfolding re_search_def group_def using search_from_substring by simp

lemma search_from_None:
  "search_from ic r prev rest = None \<longleftrightarrow>
     (\<forall>k \<le> length rest.
        match_here ic r False (if k = 0 then prev else Some (rest ! (k - 1))) (drop k rest) = None)"
proof (induction rest arbitrary: prev)
  case Nil
  show ?case by (auto split: option.splits)
next
  case (Cons c cs)
  have split: "(\<forall>k \<le> Suc n. P k) \<longleftrightarrow> P 0 \<and> (\<forall>j \<le> n. P (Suc j))" for n P
    by (metis Suc_le_mono le0 not0_implies_Suc)
  have "search_from ic r prev (c # cs) = None \<longleftrightarrow>
      match_here ic r False prev (c # cs) = None \<and> search_from ic r (Some c) cs = None"
    by (auto split: option.splits)
  also have "\<dots> \<longleftrightarrow> match_here ic r False prev (c # cs) = None \<and>
      (\<forall>j \<le> length cs. match_here ic r False (if j = 0 then Some c else Some (cs ! (j - 1))) (drop j cs) = None)"
    unfolding Cons.IH ..
  also have "\<dots> \<longleftrightarrow> (\<forall>k \<le> length (c # cs).
        match_here ic r False (if k = 0 then prev else Some ((c # cs) ! (k - 1))) (drop k (c # cs)) = None)"
    unfolding length_Cons split
    by (intro conj_cong refl all_cong1 imp_cong) (auto simp: nth_Cons split: nat.splits)
  finally show ?case .
qed

text \<open>
  On extracted data as \<open>is_extracted_data\<close> describes it, with sections missing
  or empty or not, the scorer returns: each of the five sub-scores lies between 0 and
  its maximum (financial 30, party 25, payment 20, sla 15, contact 10), the overall
  score is exactly the sum of the five, and so lies between 0 and 100.
\<close>

theorem scores_bounded:
  assumes "is_extracted_data d"
  shows "\<exists>s. calculate_confidence_scores d = Inr s
    \<and> 0 \<le> financial_completeness s \<and> financial_completeness s \<le> 30
    \<and> 0 \<le> party_identification s \<and> party_identification s \<le> 25
    \<and> 0 \<le> payment_terms_clarity s \<and> payment_terms_clarity s \<le> 20
    \<and> 0 \<le> sla_definition s \<and> sla_definition s \<le> 15
    \<and> 0 \<le> contact_information s \<and> contact_information s \<le> 10
    \<and> overall_score s = financial_completeness s + party_identification s
          + payment_terms_clarity s + sla_definition s + contact_information s
    \<and> 0 \<le> overall_score s \<and> overall_score s \<le> 100"
proof -
  from scores_normal_form[OF assms] obtain s where
    s: "calculate_confidence_scores d = Inr s"
    and f: "financial_completeness s =
        pts (has d ''financial_details'' ''total_value'') 15
        + pts (has d ''financial_details'' ''currency'') 5
        + pts (has d ''financial_details'' ''line_items'') 10"
    and p: "party_identification s =
        pts (has d ''party_identification'' ''name'') 10
        + pts (has d ''party_identification'' ''legal_entity'') 8
        + pts (has d ''party_identification'' ''signatories'') 7"
    and y: "payment_terms_clarity s =
        pts (has d ''payment_structure'' ''payment_terms'') 10
        + pts (has d ''payment_structure'' ''payment_methods'') 5
        + pts (has d ''payment_structure'' ''due_dates'') 5"
    and l: "sla_definition s =
        pts (has d ''service_level_agreements'' ''performance_metrics'') 8
        + pts (has d ''service_level_agreements'' ''penalty_clauses'') 4
        + pts (has d ''service_level_agreements'' ''support_terms'') 3"
    and c: "contact_information s =
        pts (has_contact d ''email'') 5
        + pts (has_contact d ''phone'') 3
        + pts (has d ''account_information'' ''account_numbers'') 2"
    and ov: "overall_score s = financial_completeness s + party_identification s
          + payment_terms_clarity s + sla_definition s + contact_information s"
    by blast
  have fb: "0 \<le> financial_completeness s \<and> financial_completeness s \<le> 30"
    unfolding f using pts3[of 15 5 10] by simp
  have pb: "0 \<le> party_identification s \<and> party_identification s \<le> 25"
    unfolding p using pts3[of 10 8 7] by simp
  have yb: "0 \<le> payment_terms_clarity s \<and> payment_terms_clarity s \<le> 20"
    unfolding y using pts3[of 10 5 5] by simp
  have lb: "0 \<le> sla_definition s \<and> sla_definition s \<le> 15"
    unfolding l using pts3[of 8 4 3] by simp
  have cb: "0 \<le> contact_information s \<and> contact_information s \<le> 10"
    unfolding c using pts3[of 5 3 2] by simp
  have ob: "0 \<le> overall_score s \<and> overall_score s \<le> 100"
    unfolding ov using fb pb yb lb cb by linarith
  from s fb pb yb lb cb ov ob show ?thesis by blast
qed


theorem scores_bounded_witness:
  "is_extracted_data complete_data
   \<and> calculate_confidence_scores complete_data =
       Inr \<lparr>financial_completeness = 30, party_identification = 25,
            payment_terms_clarity = 20, sla_definition = 15,
            contact_information = 10, overall_score = 100\<rparr>"
proof -
  have w: "is_extracted_data complete_data"
    by (simp add: is_extracted_data_def complete_data_def)
  have v: "calculate_confidence_scores complete_data =
       Inr \<lparr>financial_completeness = 30, party_identification = 25,
            payment_terms_clarity = 20, sla_definition = 15,
            contact_information = 10, overall_score = 100\<rparr>"
    by (simp add: calculate_confidence_scores_def complete_data_def present_def py_get_def pts_def)
  from scores_bounded[OF w] v w show ?thesis by simp
qed



lemma try_parse_with_source: "try_parse_with (source_extractors f) x = try_parse f x"
  by (cases "clean_text x") (simp_all add: try_parse_with_def try_parse_def source_extractors_def)

lemma parse_contract_with_source:
  "parse_contract_with (source_extractors f) x = parse_contract f x"
  by (simp add: parse_contract_with_def parse_contract_def try_parse_with_source)

lemma source_never_raises: "\<not> raises (source_extractors f) t"
  by (simp add: raises_def source_extractors_def)

lemma bindE_Inl_iff: "(\<exists>e. bindE m f = Inl e) \<longleftrightarrow> isl m \<or> (\<exists>x. m = Inr x \<and> isl (f x))"
  by (cases m) (auto simp: isl_def)

lemma try_parse_with_raises:
  assumes "clean_text text_content = Inr cleaned" and "raises ex cleaned"
  shows "\<exists>e. try_parse_with ex text_content = Inl e"
proof -
  have "isl (try_parse_with ex text_content)"
    using assms unfolding try_parse_with_def raises_def
    by (cases "party_ex ex cleaned"; cases "account_ex ex cleaned";
        cases "financial_ex ex cleaned"; cases "payment_ex ex cleaned";
        cases "revenue_ex ex cleaned"; cases "sla_ex ex cleaned") simp_all
  then show ?thesis by (auto simp: isl_def)
qed

text \<open>
  Claim C3. The claim asks the scorer to return bounded scores on every extracted
  data, a section that is absent included. The data model declares every section, and
  \<^verbatim>\<open>contact_info\<close>, optional with \<^verbatim>\<open>None\<close> for an absent one. The scorer
  guards the account section against \<^verbatim>\<open>None\<close> (\<^verbatim>\<open>if account\<close>) and
  returns on it, but calls \<^verbatim>\<open>.get\<close> unguarded on the other four sections and
  on \<^verbatim>\<open>contact_info\<close>: there a \<^verbatim>\<open>None\<close> raises \<^verbatim>\<open>AttributeError\<close>
  and no score is returned.
\<close>

theorem scorer_raises_on_null_section:
  "calculate_confidence_scores (PDict [(''financial_details'', PNone)]) = Inl AttributeError
   \<and> calculate_confidence_scores
        (PDict [(''account_information'', PDict [(''contact_info'', PNone)])])
       = Inl AttributeError
   \<and> calculate_confidence_scores (PDict [(''account_information'', PNone)]) =
       Inr \<lparr>financial_completeness = 0, party_identification = 0,
            payment_terms_clarity = 0, sla_definition = 0,
            contact_information = 0, overall_score = 0\<rparr>"
  by (simp add: calculate_confidence_scores_def present_def py_get_def pts_def)

text \<open>
  Claim C9. On every extracted data the gap analysis returns between 0 and 3
  recommendations, built by three rules in this order: the documentation request when
  \<open>missing_fields\<close> is not empty, the manual review when it has more than 5
  entries, the payment verification when \<^verbatim>\<open>total_value\<close> fails the presence
  check (it is missing, \<^verbatim>\<open>None\<close>, or zero).
\<close>

theorem recommendations_rules:
  assumes "is_extracted_data d"
  shows "\<exists>g. perform_gap_analysis d = Inr g
    \<and> recommendations g =
        (if missing_fields g \<noteq> []
         then [''Request additional contract documentation to fill missing fields''] else [])
        @ (if length (missing_fields g) > 5
           then [''Consider manual review due to significant missing information''] else [])
        @ (if \<not> has d ''financial_details'' ''total_value''
           then [''Verify contract value with client before processing payments''] else [])
    \<and> length (recommendations g) \<le> 3"
proof -
  from gap_normal_form[OF assms] obtain g where
    g: "perform_gap_analysis d = Inr g"
    and r: "recommendations g =
       append_if (\<not> has d ''financial_details'' ''total_value'')
            ''Verify contract value with client before processing payments''
          (append_if (length (missing_fields g) > 5)
            ''Consider manual review due to significant missing information''
          (append_if (missing_fields g \<noteq> [])
            ''Request additional contract documentation to fill missing fields'' []))"
    by blast
  have l: "length (recommendations g) \<le> 3"
    unfolding r append_if3 by simp
  from g r l show ?thesis
    unfolding append_if3 by blast
qed

theorem recommendations_rules_witness:
  "is_extracted_data minimal_data
   \<and> (\<exists>g. perform_gap_analysis minimal_data = Inr g
     \<and> length (missing_fields g) = 8
     \<and> recommendations g =
        [''Request additional contract documentation to fill missing fields'',
         ''Consider manual review due to significant missing information'',
         ''Verify contract value with client before processing payments''])"
proof -
  have w: "is_extracted_data minimal_data"
    by (simp add: is_extracted_data_def minimal_data_def)
  have h: "\<not> has minimal_data ''financial_details'' ''total_value''"
    by (simp add: has_def minimal_data_def)
  have m: "perform_gap_analysis minimal_data = Inr g \<Longrightarrow> length (missing_fields g) = 8" for g
    by (auto simp add: perform_gap_analysis_def minimal_data_def present_def py_get_def
        append_if_def Let_def)
  from recommendations_rules[OF w] obtain g where
    "perform_gap_analysis minimal_data = Inr g" and
    "recommendations g =
        (if missing_fields g \<noteq> []
         then [''Request additional contract documentation to fill missing fields''] else [])
        @ (if length (missing_fields g) > 5
           then [''Consider manual review due to significant missing information''] else [])
        @ (if \<not> has minimal_data ''financial_details'' ''total_value''
           then [''Verify contract value with client before processing payments''] else [])"
    by blast
  with m[of g] h w show ?thesis by auto
qed



text \<open>
  Claim C7. Scoring and gap reporting do not contradict each other: on every
  extracted data both return, and a field whose presence check \<open>has\<close> succeeds,
  which is when the scorer gives its weight (\<open>scores_normal_form\<close>), has no label
  in \<open>missing_fields\<close>. The seven fields with a label of their own are covered, and
  the two contact entries with the label of \<^verbatim>\<open>contact_info\<close>.
\<close>

theorem scored_not_missing:
  assumes "is_extracted_data d"
  shows "\<exists>s g. calculate_confidence_scores d = Inr s \<and> perform_gap_analysis d = Inr g
    \<and> (has d ''financial_details'' ''total_value''
          \<longrightarrow> ''Total contract value'' \<notin> set (missing_fields g))
    \<and> (has d ''financial_details'' ''line_items''
          \<longrightarrow> ''Detailed line items'' \<notin> set (missing_fields g))
    \<and> (has d ''party_identification'' ''name''
          \<longrightarrow> ''Party names'' \<notin> set (missing_fields g))
    \<and> (has d ''party_identification'' ''signatories''
          \<longrightarrow> ''Authorized signatories'' \<notin> set (missing_fields g))
    \<and> (has d ''payment_structure'' ''payment_terms''
          \<longrightarrow> ''Payment terms'' \<notin> set (missing_fields g))
    \<and> (has d ''payment_structure'' ''payment_methods''
          \<longrightarrow> ''Payment methods'' \<notin> set (missing_fields g))
    \<and> (has d ''service_level_agreements'' ''performance_metrics''
          \<longrightarrow> ''Performance metrics'' \<notin> set (missing_fields g))
    \<and> (has_contact d ''email'' \<or> has_contact d ''phone''
          \<longrightarrow> ''Contact information'' \<notin> set (missing_fields g))"
proof -
  from scores_normal_form[OF assms] obtain s where
    s: "calculate_confidence_scores d = Inr s" by blast
  from gap_normal_form[OF assms] obtain g where
    g: "perform_gap_analysis d = Inr g"
    and m: "missing_fields g =
       append_if (\<not> has d ''account_information'' ''contact_info'') ''Contact information''
       (append_if (\<not> has d ''service_level_agreements'' ''performance_metrics'') ''Performance metrics''
       (append_if (\<not> has d ''payment_structure'' ''payment_methods'') ''Payment methods''
       (append_if (\<not> has d ''payment_structure'' ''payment_terms'') ''Payment terms''
       (append_if (\<not> has d ''party_identification'' ''signatories'') ''Authorized signatories''
       (append_if (\<not> has d ''party_identification'' ''name'') ''Party names''
       (append_if (\<not> has d ''financial_details'' ''line_items'') ''Detailed line items''
       (append_if (\<not> has d ''financial_details'' ''total_value'') ''Total contract value''
          [])))))))"
    by blast
  have c: "has_contact d ''email'' \<or> has_contact d ''phone''
      \<Longrightarrow> has d ''account_information'' ''contact_info''"
    using has_contact_imp by blast
  have 1: "has d ''financial_details'' ''total_value''
          \<longrightarrow> ''Total contract value'' \<notin> set (missing_fields g)"
    unfolding m by (simp add: in_append_if)
  have 2: "has d ''financial_details'' ''line_items''
          \<longrightarrow> ''Detailed line items'' \<notin> set (missing_fields g)"
    unfolding m by (simp add: in_append_if)
  have 3: "has d ''party_identification'' ''name''
          \<longrightarrow> ''Party names'' \<notin> set (missing_fields g)"
    unfolding m by (simp add: in_append_if)
  have 4: "has d ''party_identification'' ''signatories''
          \<longrightarrow> ''Authorized signatories'' \<notin> set (missing_fields g)"
    unfolding m by (simp add: in_append_if)
  have 5: "has d ''payment_structure'' ''payment_terms''
          \<longrightarrow> ''Payment terms'' \<notin> set (missing_fields g)"
    unfolding m by (simp add: in_append_if)
  have 6: "has d ''payment_structure'' ''payment_methods''
          \<longrightarrow> ''Payment methods'' \<notin> set (missing_fields g)"
    unfolding m by (simp add: in_append_if)
  have 7: "has d ''service_level_agreements'' ''performance_metrics''
          \<longrightarrow> ''Performance metrics'' \<notin> set (missing_fields g)"
    unfolding m by (simp add: in_append_if)
  have 8: "has_contact d ''email'' \<or> has_contact d ''phone''
          \<longrightarrow> ''Contact information'' \<notin> set (missing_fields g)"
    unfolding m using c by (simp add: in_append_if)
  from s g 1 2 3 4 5 6 7 8 show ?thesis by blast
qed


theorem scored_not_missing_witness:
  "is_extracted_data complete_data
   \<and> has complete_data ''financial_details'' ''total_value''
   \<and> has complete_data ''financial_details'' ''line_items''
   \<and> has complete_data ''party_identification'' ''name''
   \<and> has complete_data ''party_identification'' ''signatories''
   \<and> has complete_data ''payment_structure'' ''payment_terms''
   \<and> has complete_data ''payment_structure'' ''payment_methods''
   \<and> has complete_data ''service_level_agreements'' ''performance_metrics''
   \<and> has_contact complete_data ''email''
   \<and> (\<exists>g. perform_gap_analysis complete_data = Inr g
      \<and> ''Total contract value'' \<notin> set (missing_fields g)
      \<and> ''Detailed line items'' \<notin> set (missing_fields g)
      \<and> ''Party names'' \<notin> set (missing_fields g)
      \<and> ''Authorized signatories'' \<notin> set (missing_fields g)
      \<and> ''Payment terms'' \<notin> set (missing_fields g)
      \<and> ''Payment methods'' \<notin> set (missing_fields g)
      \<and> ''Performance metrics'' \<notin> set (missing_fields g)
      \<and> ''Contact information'' \<notin> set (missing_fields g))"
proof -
  have w: "is_extracted_data complete_data"
    by (simp add: is_extracted_data_def complete_data_def)
  have h: "has complete_data ''financial_details'' ''total_value''"
    "has complete_data ''financial_details'' ''line_items''"
    "has complete_data ''party_identification'' ''name''"
    "has complete_data ''party_identification'' ''signatories''"
    "has complete_data ''payment_structure'' ''payment_terms''"
    "has complete_data ''payment_structure'' ''payment_methods''"
    "has complete_data ''service_level_agreements'' ''performance_metrics''"
    "has_contact complete_data ''email''"
    by (simp_all add: has_def has_contact_def complete_data_def)
  from scored_not_missing[OF w] h w show ?thesis by blast
qed



text \<open>
  Claim C8. Filling in one field that failed the presence check (missing,
  \<^verbatim>\<open>None\<close> or empty) with a value that passes it lowers no component of the
  scores. The field is any field of any section or any contact entry, the fifteen
  scored fields among them; a new \<^verbatim>\<open>contact_info\<close> has to be a dictionary, as
  extracted data asks.
\<close>

theorem scores_monotone:
  assumes "is_extracted_data d"
    and "r = Field ''account_information'' ''contact_info'' \<longrightarrow> is_dict v"
    and "\<not> truthy (field_value d r)" and "truthy v"
  shows "\<exists>s s'. calculate_confidence_scores d = Inr s
      \<and> calculate_confidence_scores (with_field d r v) = Inr s'
      \<and> financial_completeness s \<le> financial_completeness s'
      \<and> party_identification s \<le> party_identification s'
      \<and> payment_terms_clarity s \<le> payment_terms_clarity s'
      \<and> sla_definition s \<le> sla_definition s'
      \<and> contact_information s \<le> contact_information s'
      \<and> overall_score s \<le> overall_score s'"
proof -
  from assms(1) have top: "is_dict d" by (simp add: is_extracted_data_def)
  note m = mono_with_field[OF top assms(4) assms(3)]
  show ?thesis
    by (rule scores_monotone_general[OF assms(1) wf_with_field[OF assms(1) assms(2)]])
       (use m in blast)+
qed


theorem scores_monotone_witness:
  "is_extracted_data minimal_data
   \<and> Field ''financial_details'' ''total_value'' \<noteq> Field ''account_information'' ''contact_info''
   \<and> \<not> truthy (field_value minimal_data (Field ''financial_details'' ''total_value''))
   \<and> truthy (PNum 50000)
   \<and> calculate_confidence_scores minimal_data =
       Inr \<lparr>financial_completeness = 0, party_identification = 0,
            payment_terms_clarity = 0, sla_definition = 0,
            contact_information = 0, overall_score = 0\<rparr>
   \<and> calculate_confidence_scores
        (with_field minimal_data (Field ''financial_details'' ''total_value'') (PNum 50000)) =
       Inr \<lparr>financial_completeness = 15, party_identification = 0,
            payment_terms_clarity = 0, sla_definition = 0,
            contact_information = 0, overall_score = 15\<rparr>"
proof -
  have w: "is_extracted_data minimal_data"
    by (simp add: is_extracted_data_def minimal_data_def)
  have n: "Field ''financial_details'' ''total_value'' = Field ''account_information'' ''contact_info''
      \<longrightarrow> is_dict (PNum 50000)"
    by simp
  have a: "\<not> truthy (field_value minimal_data (Field ''financial_details'' ''total_value''))"
    by (simp add: minimal_data_def)
  have t: "truthy (PNum 50000)" by simp
  have v: "calculate_confidence_scores minimal_data =
       Inr \<lparr>financial_completeness = 0, party_identification = 0,
            payment_terms_clarity = 0, sla_definition = 0,
            contact_information = 0, overall_score = 0\<rparr>"
    by (simp add: calculate_confidence_scores_def minimal_data_def present_def py_get_def pts_def)
  have v': "calculate_confidence_scores
        (with_field minimal_data (Field ''financial_details'' ''total_value'') (PNum 50000)) =
       Inr \<lparr>financial_completeness = 15, party_identification = 0,
            payment_terms_clarity = 0, sla_definition = 0,
            contact_information = 0, overall_score = 15\<rparr>"
    by (simp add: calculate_confidence_scores_def minimal_data_def present_def py_get_def pts_def)
  from scores_monotone[OF w n a t] w a t v v' show ?thesis by simp
qed

text \<open>
  Claim C1, amended. Parsing the empty text raises nothing and gives the structure in
  which every field has its default: \<^verbatim>\<open>None\<close>, an empty collection,
  \<^verbatim>\<open>False\<close> for \<^verbatim>\<open>auto_renewal\<close> and \<^verbatim>\<open>"USD"\<close> for the
  currency. The default currency passes the scorer's presence check, so the financial
  score and the overall score of that result are 5, the other four scores 0. The
  counterexample after the witness shows the overall score is not 0, and that the
  result is not the structure of six empty sections either.
\<close>

theorem parse_empty_text:
  assumes "lists_set set_list"
  shows "try_parse set_list (PStr []) = Inr default_extracted_data
    \<and> parse_contract set_list (PStr []) = default_extracted_data
    \<and> calculate_confidence_scores (parse_contract set_list (PStr [])) =
        Inr \<lparr>financial_completeness = 5, party_identification = 0,
             payment_terms_clarity = 0, sla_definition = 0,
             contact_information = 0, overall_score = 5\<rparr>"
  using try_parse_empty[OF assms] scores_default
  by (simp add: parse_contract_def)

theorem parse_empty_text_witness:
  "lists_set remdups
   \<and> parse_contract remdups (PStr []) = default_extracted_data
   \<and> fld (entry (parse_contract remdups (PStr [])) ''financial_details'') ''currency''
       = PStr ''USD''"
proof -
  have r: "lists_set remdups" by (simp add: lists_set_def)
  from parse_empty_text[OF r] r show ?thesis
    by (simp add: default_extracted_data_def)
qed

theorem parse_empty_text_scores_five:
  "parse_contract remdups (PStr []) \<noteq> get_empty_extracted_data
   \<and> (\<exists>s. calculate_confidence_scores (parse_contract remdups (PStr [])) = Inr s
        \<and> overall_score s = 5 \<and> overall_score s \<noteq> 0)"
proof -
  have r: "lists_set remdups" by (simp add: lists_set_def)
  have p: "parse_contract remdups (PStr []) = default_extracted_data"
    using try_parse_empty[OF r] by (simp add: parse_contract_def)
  show ?thesis
    unfolding p scores_default
    by (simp add: default_extracted_data_def get_empty_extracted_data_def)
qed

text \<open>
  Claim C2, amended. For every input text, when an extractor raises, the parser
  catches the exception and returns the empty structure: all six sections are there,
  each an empty dictionary, so every field read with \<^verbatim>\<open>.get\<close> is
  \<^verbatim>\<open>None\<close>. The keys of the fields are omitted, not present with a null value:
  the counterexample after the witness shows, at a text on which the financial
  extractor raises, keys missing that the parse of the same text has when nothing
  raises.
\<close>

theorem fault_gives_empty_sections:
  assumes "clean_text (PStr text) = Inr cleaned" and "raises ex cleaned"
  shows "parse_contract_with ex (PStr text) = get_empty_extracted_data
    \<and> (\<forall>sec \<in> set section_names.
          has_key (parse_contract_with ex (PStr text)) sec
          \<and> entry (parse_contract_with ex (PStr text)) sec = PDict []
          \<and> (\<forall>k. \<not> has_key (entry (parse_contract_with ex (PStr text)) sec) k
                \<and> py_get (entry (parse_contract_with ex (PStr text)) sec) k = Inr PNone))"
proof -
  from try_parse_with_raises[OF assms] obtain e where
    "try_parse_with ex (PStr text) = Inl e" by blast
  then have p: "parse_contract_with ex (PStr text) = get_empty_extracted_data"
    by (simp add: parse_contract_with_def)
  show ?thesis
    unfolding p
    by (simp add: get_empty_extracted_data_def section_names_def py_get_def)
qed

theorem fault_gives_empty_sections_witness:
  "clean_text (PStr ''Total:  $5 '') = Inr ''Total: $5''
   \<and> raises faulty_extractors ''Total: $5''
   \<and> parse_contract_with faulty_extractors (PStr ''Total:  $5 '') = get_empty_extracted_data
   \<and> entry (parse_contract_with faulty_extractors (PStr ''Total:  $5 '')) ''financial_details''
       = PDict []
   \<and> py_get (entry (parse_contract_with faulty_extractors (PStr ''Total:  $5 ''))
        ''financial_details'') ''total_value'' = Inr PNone"
proof -
  have c: "clean_text (PStr ''Total:  $5 '') = Inr ''Total: $5''" by (rule clean5)
  have r: "raises faulty_extractors ''Total: $5''"
    by (simp add: raises_def faulty_extractors_def)
  from fault_gives_empty_sections[OF c r]
  have e: "parse_contract_with faulty_extractors (PStr ''Total:  $5 '') = get_empty_extracted_data"
    by blast
  show ?thesis
    unfolding e using c r by (simp add: get_empty_extracted_data_def py_get_def)
qed

theorem fault_result_omits_keys:
  "clean_text (PStr ''Total:  $5 '') = Inr ''Total: $5''
   \<and> raises faulty_extractors ''Total: $5''
   \<and> has_key (parse_contract_with faulty_extractors (PStr ''Total:  $5 '')) ''financial_details''
   \<and> \<not> has_key (entry (parse_contract_with faulty_extractors (PStr ''Total:  $5 ''))
          ''financial_details'') ''total_value''
   \<and> \<not> has_key (entry (parse_contract_with faulty_extractors (PStr ''Total:  $5 ''))
          ''party_identification'') ''signatories''
   \<and> has_key (entry (parse_contract remdups (PStr ''Total:  $5 '')) ''financial_details'')
        ''total_value''"
proof -
  have c: "clean_text (PStr ''Total:  $5 '') = Inr ''Total: $5''" by (rule clean5)
  have r: "raises faulty_extractors ''Total: $5''"
    by (simp add: raises_def faulty_extractors_def)
  have e: "parse_contract_with faulty_extractors (PStr ''Total:  $5 '') = get_empty_extracted_data"
    using c by (simp add: parse_contract_with_def try_parse_with_def faulty_extractors_def
        source_extractors_def)
  obtain d where d: "try_parse remdups (PStr ''Total:  $5 '') = Inr d"
    using try_parse_str by blast
  then have p: "parse_contract remdups (PStr ''Total:  $5 '') = d"
    by (simp add: parse_contract_def)
  from parse_sections[OF d]
  have "entry d ''financial_details'' =
      extract_financial_details (strip (re_sub False space_run '' '' ''Total:  $5 ''))"
    by blast
  then have k: "has_key (entry d ''financial_details'') ''total_value''"
    by (simp add: extract_financial_details_def Let_def)
  show ?thesis
    unfolding e p using c r k by (simp add: get_empty_extracted_data_def)
qed

text \<open>
  Claim C10. Whenever the parse succeeds, \<^verbatim>\<open>tax_info\<close> of the financial section
  is the empty dictionary, no extractor fills it, and the gap analysis of the result
  returns exactly the one incomplete section \<^verbatim>\<open>"Tax information"\<close>.
\<close>

theorem tax_info_always_incomplete:
  assumes "try_parse set_list text_content = Inr d"
  shows "parse_contract set_list text_content = d
    \<and> fld (entry d ''financial_details'') ''tax_info'' = PDict []
    \<and> (\<exists>g. perform_gap_analysis d = Inr g \<and> incomplete_sections g = [''Tax information''])"
proof -
  from assms obtain t where x: "text_content = PStr t"
    by (cases text_content) (auto simp: try_parse_def)
  from parse_sections[OF assms[unfolded x]]
  have f: "entry d ''financial_details'' =
      extract_financial_details (strip (re_sub False space_run '' '' t))"
    by blast
  have tax: "fld (entry d ''financial_details'') ''tax_info'' = PDict []"
    unfolding f by (rule tax_info_empty)
  from gap_normal_form[OF parse_is_extracted_data[OF assms]] obtain g where
    g: "perform_gap_analysis d = Inr g" and
    i: "incomplete_sections g =
       append_if (\<not> has d ''financial_details'' ''tax_info'') ''Tax information'' []"
    by blast
  have "incomplete_sections g = [''Tax information'']"
    unfolding i by (simp add: has_def tax append_if_def)
  with g tax assms show ?thesis by (simp add: parse_contract_def)
qed

theorem tax_info_always_incomplete_witness:
  "(\<exists>d. try_parse remdups (PStr ''Total:  $5 '') = Inr d
      \<and> parse_contract remdups (PStr ''Total:  $5 '') = d
      \<and> fld (entry d ''financial_details'') ''total_value'' = PNum 5
      \<and> fld (entry d ''financial_details'') ''tax_info'' = PDict []
      \<and> (\<exists>g. perform_gap_analysis d = Inr g \<and> incomplete_sections g = [''Tax information'']))"
proof -
  obtain d where d: "try_parse remdups (PStr ''Total:  $5 '') = Inr d"
    using try_parse_str by blast
  have c: "strip (re_sub False space_run '' '' ''Total:  $5 '') = ''Total: $5''"
    using clean5 by simp
  from parse_sections[OF d] have "entry d ''financial_details'' = extract_financial_details ''Total: $5''"
    unfolding c by blast
  then have v: "fld (entry d ''financial_details'') ''total_value'' = PNum 5"
    unfolding fin5 by simp
  from tax_info_always_incomplete[OF d] d v show ?thesis by blast
qed

text \<open>
  Claim C6. On every string the normaliser returns, and what it returns is the text
  with every maximal run of whitespace (spaces, tabs, newlines and the other
  whitespace characters) collapsed to one ASCII space and the whitespace at both ends
  removed. The result has no two whitespace characters in a row, no whitespace but the
  space, and neither starts nor ends with whitespace. The witness evaluates it at
  \<^verbatim>\<open>"  a   b  "\<close> and at the empty string.
\<close>

theorem clean_text_normalizes:
  "\<exists>out. clean_text (PStr t) = Inr out
     \<and> out = strip (collapse_runs t)
     \<and> single_spaced out
     \<and> (\<forall>c \<in> set out. is_space c \<longrightarrow> c = CHR '' '')
     \<and> (out \<noteq> [] \<longrightarrow> \<not> is_space (hd out) \<and> \<not> is_space (last out))"
proof -
  let ?out = "strip (collapse_runs t)"
  have 1: "clean_text (PStr t) = Inr ?out" by (rule clean_text_collapse)
  have 2: "single_spaced ?out"
    by (intro strip_single_spaced collapse_single_spaced)
  have 3: "\<forall>c \<in> set ?out. is_space c \<longrightarrow> c = CHR '' ''"
    using strip_subset[of "collapse_runs t"] collapse_spaces[of _ t] by blast
  have 4: "?out \<noteq> [] \<longrightarrow> \<not> is_space (hd ?out) \<and> \<not> is_space (last ?out)"
    using strip_ends[of "collapse_runs t"] by blast
  from 1 2 3 4 show ?thesis by blast
qed

theorem clean_text_normalizes_witness:
  "clean_text (PStr ''  a   b  '') = Inr ''a b''
   \<and> clean_text (PStr []) = Inr []
   \<and> single_spaced ''a b''
   \<and> \<not> is_space (hd ''a b'') \<and> \<not> is_space (last ''a b'')"
proof -
  have e: "strip (collapse_runs ''  a   b  '') = ''a b''"
    by (simp add: strip_def is_space_def code_def)
  have n: "strip (collapse_runs []) = []"
    by (simp add: strip_def)
  from clean_text_normalizes[of "''  a   b  ''"] clean_text_normalizes[of "[]"]
  show ?thesis unfolding e n by auto
qed

text \<open>
  Claim C5. \<^verbatim>\<open>payment_terms\<close> is the full match of the first of the three
  patterns, taken in the order "net N", "payment terms: ...", "due within N days",
  that is found anywhere in the text, and \<^verbatim>\<open>None\<close> when none is found. The
  order of the patterns decides, not the order in the document: in the witness the
  third pattern matches at the start of the text and the first one later, and the
  first one gives the result. (\<open>re_search_substring\<close> and \<open>search_from_None\<close>
  say what being found anywhere means.)
\<close>

theorem payment_terms_priority:
  "fld (extract_payment_structure set_list text) ''payment_terms'' =
     (case re_search True net_terms text of
        Some m \<Rightarrow> PStr (group m 0)
      | None \<Rightarrow>
          (case re_search True stated_terms text of
             Some m \<Rightarrow> PStr (group m 0)
           | None \<Rightarrow>
               (case re_search True due_terms text of
                  Some m \<Rightarrow> PStr (group m 0)
                | None \<Rightarrow> PNone)))"
  by (simp add: extract_payment_structure_def payment_terms_patterns_def Let_def
      split: option.splits)

theorem payment_terms_priority_witness:
  "re_search True due_terms ''due in 5 days net 30'' = Some (''due in 5 days'', [(1, ''5 days'')])
   \<and> fld (extract_payment_structure remdups ''due in 5 days net 30'') ''payment_terms''
       = PStr ''net 30''
   \<and> fld (extract_payment_structure remdups ''pay on time'') ''payment_terms'' = PNone"
  using payment_terms_priority[of remdups "''due in 5 days net 30''"]
    payment_terms_priority[of remdups "''pay on time''"]
  by (simp add: net_found due_found none_found group_def)

end
